theory Spec2Isabelle
  imports Complex_Main
begin

section \<open>The circuit breaker of brpc (src/brpc/circuit\_breaker.cpp)\<close>

text \<open>
  The model is sequential: one call runs to its end before the next one starts, so every
  atomic load sees the last store, and a \<open>compare_exchange_weak\<close> that fails can only fail
  spuriously, which repeats the loop body on the same values; each compare-and-retry loop is
  therefore the single pass that ends it.

  The gflags of the file are a record that every function reading a flag takes as its first
  argument. Each function returns its result together with the recorder it leaves.
\<close>

subsection \<open>Machine arithmetic\<close>

text \<open>
  Integers of the program are values of type \<open>int\<close> and every operation of the source on
  them is followed by the reduction to its width, in two's complement: the products and sums
  on \<open>int64_t\<close> and the \<open>fetch_add\<close> on \<open>_ema_error_cost\<close> wrap at 64 bits, the \<open>fetch_add\<close>
  on the sample counter at 32 bits (the counter is declared in \<open>circuit_breaker.h\<close>;
  \<open>OnCallEnd\<close> reads it into an \<open>int\<close> and compares it with the \<open>int\<close> window size).
\<close>

definition wrap_int64 :: "int \<Rightarrow> int" where
  "wrap_int64 x = (x + 9223372036854775808) mod 18446744073709551616 - 9223372036854775808"

definition wrap_int32 :: "int \<Rightarrow> int" where
  "wrap_int32 x = (x + 2147483648) mod 4294967296 - 2147483648"

text \<open>
  A \<open>double\<close> is a real number with a significand of 53 bits. Every operation on doubles is
  the exact operation followed by rounding to the nearest double, ties to the even
  significand, as IEEE 754 binary64 prescribes: the quotient by the spacing of the doubles
  around the value is rounded to an integer. The exponent range is not bounded: overflow to
  infinity and subnormal numbers are outside the model, and no operation of the source
  contracts into a fused multiply-add.
\<close>

definition round_half_even :: "real \<Rightarrow> int" where
  "round_half_even y =
     (let f = \<lfloor>y\<rfloor>; d = y - of_int f
      in if d < 1 / 2 then f else if 1 / 2 < d then f + 1
         else if even f then f else f + 1)"

definition round_double :: "real \<Rightarrow> real" where
  "round_double x =
     (if x = 0 then 0
      else of_int (round_half_even (x / 2 powr of_int (\<lfloor>log 2 \<bar>x\<bar>\<rfloor> - 52)))
           * 2 powr of_int (\<lfloor>log 2 \<bar>x\<bar>\<rfloor> - 52))"

definition fadd :: "real \<Rightarrow> real \<Rightarrow> real" where
  "fadd a b = round_double (a + b)"

definition fsub :: "real \<Rightarrow> real \<Rightarrow> real" where
  "fsub a b = round_double (a - b)"

definition fmul :: "real \<Rightarrow> real \<Rightarrow> real" where
  "fmul a b = round_double (a * b)"

definition fdiv :: "real \<Rightarrow> real \<Rightarrow> real" where
  "fdiv a b = round_double (a / b)"

text \<open>The conversion of an integer operand to \<open>double\<close>.\<close>

definition double_of_int :: "int \<Rightarrow> real" where
  "double_of_int v = round_double (of_int v)"

text \<open>
  The conversion of a \<open>double\<close> to \<open>int64_t\<close> drops the fractional part. A value outside
  the range of \<open>int64_t\<close> gives \<open>- 2\<^sup>6\<^sup>3\<close>, the result of the conversion instruction of
  x86-64.
\<close>

definition int64_of_double :: "real \<Rightarrow> int" where
  "int64_of_double x =
     (let t = (if 0 \<le> x then \<lfloor>x\<rfloor> else \<lceil>x\<rceil>)
      in if - 9223372036854775808 \<le> t \<and> t < 9223372036854775808 then t
         else - 9223372036854775808)"

text \<open>The literal \<open>0.1\<close>.\<close>

definition EPSILON :: real where
  "EPSILON = round_double (1 / 10)"

text \<open>\<open>std::pow\<close>, taken to return the double nearest to the power.\<close>

definition pow_double :: "real \<Rightarrow> real \<Rightarrow> real" where
  "pow_double x y = round_double (x powr y)"

text \<open>
  \<open>std::pow(EPSILON, 1.0 / window_size)\<close>. For \<open>window_size = 0\<close> the exponent is
  \<open>+inf\<close> and the power of a base below one is \<open>0\<close>.
\<close>

definition pow_EPSILON :: "int \<Rightarrow> real" where
  "pow_EPSILON window_size =
     (if window_size = 0 then 0 else pow_double EPSILON (fdiv 1 (double_of_int window_size)))"

subsection \<open>Flags\<close>

record flags =
  circuit_breaker_short_window_size :: int
  circuit_breaker_long_window_size :: int
  circuit_breaker_short_window_error_percent :: int
  circuit_breaker_long_window_error_percent :: int
  circuit_breaker_min_error_cost_us :: int
  circuit_breaker_max_failed_latency_mutliple :: int

text \<open>The values of the \<open>DEFINE_int32\<close> lines.\<close>

definition default_flags :: flags where
  "default_flags =
     \<lparr> circuit_breaker_short_window_size = 100,
       circuit_breaker_long_window_size = 1000,
       circuit_breaker_short_window_error_percent = 5,
       circuit_breaker_long_window_error_percent = 3,
       circuit_breaker_min_error_cost_us = 100,
       circuit_breaker_max_failed_latency_mutliple = 2 \<rparr>"

subsection \<open>EmaErrorRecorder\<close>

record ema_error_recorder =
  window_size :: int
  max_error_percent :: int
  smooth :: real
  init_completed :: bool
  sample_count :: int
  ema_error_cost :: int
  ema_latency :: int
  broken :: bool

definition EmaErrorRecorder :: "int \<Rightarrow> int \<Rightarrow> ema_error_recorder" where
  "EmaErrorRecorder ws mep =
     \<lparr> window_size = ws,
       max_error_percent = mep,
       smooth = pow_EPSILON ws,
       init_completed = False,
       sample_count = 0,
       ema_error_cost = 0,
       ema_latency = 0,
       broken = False \<rparr>"

definition Reset :: "ema_error_recorder \<Rightarrow> ema_error_recorder" where
  "Reset r =
     r\<lparr> init_completed := False,
        sample_count := 0,
        ema_error_cost := 0,
        ema_latency := 0,
        broken := False \<rparr>"

text \<open>Returns the new average and the recorder that stores it.\<close>

definition UpdateLatency :: "int \<Rightarrow> ema_error_recorder \<Rightarrow> int \<times> ema_error_recorder" where
  "UpdateLatency latency r =
     (let old_ema_latency = ema_latency r;
          next_ema_latency =
            (if 0 = old_ema_latency then latency
             else int64_of_double
                    (fadd (fmul (double_of_int old_ema_latency) (smooth r))
                          (fmul (double_of_int latency) (fsub 1 (smooth r)))))
      in (next_ema_latency, r\<lparr>ema_latency := next_ema_latency\<rparr>))"

text \<open>The local \<open>max_error_cost\<close> of \<open>UpdateErrorCost\<close>.\<close>

definition max_error_cost :: "int \<Rightarrow> ema_error_recorder \<Rightarrow> int" where
  "max_error_cost ema_lat r =
     int64_of_double
       (fmul (fmul (double_of_int (wrap_int64 (ema_lat * window_size r)))
                   (fdiv (double_of_int (max_error_percent r)) 100))
             (fadd 1 EPSILON))"

text \<open>Returns the verdict \<open>healthy\<close> and the recorder with its new error cost.\<close>

definition UpdateErrorCost ::
  "flags \<Rightarrow> int \<Rightarrow> int \<Rightarrow> ema_error_recorder \<Rightarrow> bool \<times> ema_error_recorder" where
  "UpdateErrorCost fl error_cost0 ema_lat r =
     (let max_mutilple = circuit_breaker_max_failed_latency_mutliple fl;
          error_cost = min (wrap_int64 (ema_lat * max_mutilple)) error_cost0
      in if error_cost \<noteq> 0 then
           (let new_ema_error_cost = wrap_int64 (ema_error_cost r + error_cost)
            in (new_ema_error_cost \<le> max_error_cost ema_lat r,
                r\<lparr>ema_error_cost := new_ema_error_cost\<rparr>))
         else
           (let old_ema_error_cost = ema_error_cost r
            in if old_ema_error_cost = 0 then (True, r)
               else if old_ema_error_cost < circuit_breaker_min_error_cost_us fl
               then (True, r\<lparr>ema_error_cost := 0\<rparr>)
               else (True, r\<lparr>ema_error_cost :=
                               int64_of_double
                                 (fmul (double_of_int old_ema_error_cost) (smooth r))\<rparr>)))"

definition OnCallEnd ::
  "flags \<Rightarrow> int \<Rightarrow> int \<Rightarrow> ema_error_recorder \<Rightarrow> bool \<times> ema_error_recorder" where
  "OnCallEnd fl error_code latency r =
     (if broken r then (False, r)
      else
        (let (healthy, r1) =
               (if error_code = 0 then
                  (let (ema_lat, ra) = UpdateLatency latency r
                   in UpdateErrorCost fl 0 ema_lat ra)
                else UpdateErrorCost fl latency (ema_latency r) r);
             count = sample_count r1;
             r2 = r1\<lparr>sample_count := wrap_int32 (count + 1)\<rparr>;
             (completed, r3) =
               (if \<not> init_completed r2 \<and> count \<ge> window_size r2
                then (True, r2\<lparr>init_completed := True\<rparr>)
                else (init_completed r2, r2))
         in if \<not> completed then (True, r3)
            else if \<not> healthy then (False, r3\<lparr>broken := True\<rparr>)
            else (healthy, r3)))"

subsection \<open>CircuitBreaker\<close>

record circuit_breaker =
  long_window :: ema_error_recorder
  short_window :: ema_error_recorder

definition CircuitBreaker :: "flags \<Rightarrow> circuit_breaker" where
  "CircuitBreaker fl =
     \<lparr> long_window = EmaErrorRecorder (circuit_breaker_long_window_size fl)
                       (circuit_breaker_long_window_error_percent fl),
       short_window = EmaErrorRecorder (circuit_breaker_short_window_size fl)
                        (circuit_breaker_short_window_error_percent fl) \<rparr>"

text \<open>The right operand of \<open>&&\<close> runs only when the left one is true.\<close>

definition CircuitBreaker_OnCallEnd ::
  "flags \<Rightarrow> int \<Rightarrow> int \<Rightarrow> circuit_breaker \<Rightarrow> bool \<times> circuit_breaker" where
  "CircuitBreaker_OnCallEnd fl error_code latency cb =
     (let (ok_long, lw) = OnCallEnd fl error_code latency (long_window cb)
      in if ok_long then
           (let (ok_short, sw) = OnCallEnd fl error_code latency (short_window cb)
            in (ok_short, cb\<lparr>long_window := lw, short_window := sw\<rparr>))
         else (False, cb\<lparr>long_window := lw\<rparr>))"

definition CircuitBreaker_Reset :: "circuit_breaker \<Rightarrow> circuit_breaker" where
  "CircuitBreaker_Reset cb =
     cb\<lparr>long_window := Reset (long_window cb), short_window := Reset (short_window cb)\<rparr>"

subsection \<open>Sequences of calls\<close>

text \<open>
  A caller that reports the calls \<open>(error_code, latency)\<close> of a list one after the other;
  the verdicts come back in the order of the calls.
\<close>

fun run_calls ::
  "flags \<Rightarrow> (int \<times> int) list \<Rightarrow> ema_error_recorder \<Rightarrow> bool list \<times> ema_error_recorder" where
  "run_calls fl [] r = ([], r)"
| "run_calls fl ((error_code, latency) # cs) r =
     (let (ok, r1) = OnCallEnd fl error_code latency r;
          (oks, r2) = run_calls fl cs r1
      in (ok # oks, r2))"

text \<open>The state the constructor and \<open>Reset\<close> leave in the mutable fields.\<close>

definition fresh :: "ema_error_recorder \<Rightarrow> bool" where
  "fresh r \<longleftrightarrow>
     \<not> init_completed r \<and> sample_count r = 0 \<and> ema_error_cost r = 0
     \<and> ema_latency r = 0 \<and> \<not> broken r"

text \<open>
  The first step of \<open>OnCallEnd\<close> on a recorder that is not broken, the branch on
  \<open>error_code\<close> that updates the two averages, under a name of its own for the lemmas below.
\<close>

definition update_stats ::
  "flags \<Rightarrow> int \<Rightarrow> int \<Rightarrow> ema_error_recorder \<Rightarrow> bool \<times> ema_error_recorder" where
  "update_stats fl error_code latency r =
               (if error_code = 0 then
                  (let (ema_lat, ra) = UpdateLatency latency r
                   in UpdateErrorCost fl 0 ema_lat ra)
                else UpdateErrorCost fl latency (ema_latency r) r)"

section \<open>Rounding to a double\<close>

lemma round_half_even_err: "\<bar>of_int (round_half_even y) - y\<bar> \<le> 1 / 2"
  unfolding round_half_even_def Let_def by (auto simp: abs_if; linarith)

lemma round_half_even_of_int [simp]: "round_half_even (of_int n) = n"
  by (simp add: round_half_even_def)

lemma round_half_even_le: "y \<le> of_int n \<Longrightarrow> round_half_even y \<le> n"
  unfolding round_half_even_def Let_def
  by (auto; linarith)

lemma round_half_even_ge: "of_int n \<le> y \<Longrightarrow> n \<le> round_half_even y"
  unfolding round_half_even_def Let_def
  by (auto; linarith)

lemma floor_log2_bounds:
  assumes "x \<noteq> 0"
  shows "2 powr of_int \<lfloor>log 2 \<bar>x\<bar>\<rfloor> \<le> \<bar>x\<bar>" and "\<bar>x\<bar> < 2 powr of_int (\<lfloor>log 2 \<bar>x\<bar>\<rfloor> + 1)"
proof -
  have p: "0 < \<bar>x\<bar>" using assms by simp
  have "of_int \<lfloor>log 2 \<bar>x\<bar>\<rfloor> \<le> log 2 \<bar>x\<bar>" by (rule of_int_floor_le)
  then show "2 powr of_int \<lfloor>log 2 \<bar>x\<bar>\<rfloor> \<le> \<bar>x\<bar>"
    by (subst (asm) le_log_iff) (use p in simp_all)
  have "log 2 \<bar>x\<bar> < of_int (\<lfloor>log 2 \<bar>x\<bar>\<rfloor> + 1)" by linarith
  then show "\<bar>x\<bar> < 2 powr of_int (\<lfloor>log 2 \<bar>x\<bar>\<rfloor> + 1)"
    by (subst (asm) log_less_iff) (use p in simp_all)
qed

lemma floor_log2_eq:
  assumes "2 powr of_int e \<le> \<bar>x\<bar>" "\<bar>x\<bar> < 2 powr of_int (e + 1)"
  shows "\<lfloor>log 2 \<bar>x\<bar>\<rfloor> = e"
proof -
  have "0 < (2::real) powr of_int e" by simp
  with assms(1) have p: "0 < \<bar>x\<bar>" by linarith
  have "of_int e \<le> log 2 \<bar>x\<bar>"
    by (subst le_log_iff) (use assms(1) p in simp_all)
  moreover have "log 2 \<bar>x\<bar> < of_int (e + 1)"
    by (subst log_less_iff) (use assms(2) p in simp_all)
  ultimately show ?thesis by linarith
qed

lemma round_double_0 [simp]: "round_double 0 = 0"
  by (simp add: round_double_def)

lemma round_double_eval:
  assumes "2 powr of_int e \<le> \<bar>x\<bar>" "\<bar>x\<bar> < 2 powr of_int (e + 1)"
  shows "round_double x = of_int (round_half_even (x / 2 powr of_int (e - 52))) * 2 powr of_int (e - 52)"
proof -
  have "0 < (2::real) powr of_int e" by simp
  with assms(1) have "0 < \<bar>x\<bar>" by linarith
  then have "x \<noteq> 0" by simp
  then show ?thesis
    by (simp add: round_double_def floor_log2_eq [OF assms])
qed

lemma round_double_rel_err: "\<bar>round_double x - x\<bar> \<le> \<bar>x\<bar> / 2 ^ 53"
proof (cases "x = 0")
  case True
  then show ?thesis by simp
next
  case False
  define e where "e = \<lfloor>log 2 \<bar>x\<bar>\<rfloor>"
  define q :: real where "q = 2 powr of_int (e - 52)"
  have q: "0 < q" by (simp add: q_def)
  have r: "round_double x = of_int (round_half_even (x / q)) * q"
    using False by (simp add: round_double_def e_def q_def)
  define z :: real where "z = of_int (round_half_even (x / q))"
  have "\<bar>z - x / q\<bar> \<le> 1 / 2"
    unfolding z_def by (rule round_half_even_err)
  then have "\<bar>z - x / q\<bar> * q \<le> 1 / 2 * q"
    using q by (intro mult_right_mono) simp_all
  moreover have "z * q - x = (z - x / q) * q"
    using q by (simp add: left_diff_distrib)
  then have "\<bar>z * q - x\<bar> = \<bar>z - x / q\<bar> * q"
    using q by (simp only: abs_mult abs_of_pos)
  ultimately have 1: "\<bar>round_double x - x\<bar> \<le> q / 2" by (simp add: r z_def)
  have "q / 2 = 2 powr of_int e / 2 ^ 53"
  proof -
    have "q = 2 powr of_int e * 2 powr (- 52)"
      by (simp add: q_def powr_add [symmetric])
    also have "(2::real) powr (- 52) = 1 / 2 ^ 52"
      by (simp add: powr_minus_divide powr_realpow [symmetric])
    finally show ?thesis by simp
  qed
  also have "\<dots> \<le> \<bar>x\<bar> / 2 ^ 53"
    using floor_log2_bounds(1) [OF False] by (simp add: e_def divide_right_mono)
  finally show ?thesis using 1 by linarith
qed

lemma round_double_nonneg: "0 \<le> x \<Longrightarrow> 0 \<le> round_double x"
proof (cases "x = 0")
  case True
  then show ?thesis by simp
next
  case False
  assume "0 \<le> x"
  then have "of_int 0 \<le> x / 2 powr of_int (\<lfloor>log 2 \<bar>x\<bar>\<rfloor> - 52)" by simp
  then have "0 \<le> round_half_even (x / 2 powr of_int (\<lfloor>log 2 \<bar>x\<bar>\<rfloor> - 52))"
    by (rule round_half_even_ge)
  then show ?thesis using False by (simp add: round_double_def)
qed

lemma round_double_nonpos: "x \<le> 0 \<Longrightarrow> round_double x \<le> 0"
proof (cases "x = 0")
  case True
  then show ?thesis by simp
next
  case False
  assume "x \<le> 0"
  then have "x / 2 powr of_int (\<lfloor>log 2 \<bar>x\<bar>\<rfloor> - 52) \<le> of_int 0"
    by (simp add: divide_nonpos_pos)
  then have "round_half_even (x / 2 powr of_int (\<lfloor>log 2 \<bar>x\<bar>\<rfloor> - 52)) \<le> 0"
    by (rule round_half_even_le)
  then show ?thesis using False
    by (simp add: round_double_def mult_le_0_iff)
qed

lemma powr_int_nat: "0 \<le> j \<Longrightarrow> (2::real) powr of_int j = of_int (2 ^ nat j)"
  by (simp add: powr_realpow [symmetric])

lemma round_double_representable:
  assumes "\<bar>m\<bar> \<le> 2 ^ 53"
  shows "round_double (of_int m * 2 powr of_int k) = of_int m * 2 powr of_int k"
proof (cases "m = 0")
  case True
  then show ?thesis by simp
next
  case False
  define x :: real where "x = of_int m * 2 powr of_int k"
  have x0: "x \<noteq> 0" using False by (simp add: x_def)
  define e where "e = \<lfloor>log 2 \<bar>x\<bar>\<rfloor>"
  have ax: "\<bar>x\<bar> = of_int \<bar>m\<bar> * 2 powr of_int k"
    by (simp add: x_def abs_mult)
  have "2 powr of_int e \<le> \<bar>x\<bar>"
    unfolding e_def by (rule floor_log2_bounds(1) [OF x0])
  also have "\<bar>x\<bar> \<le> 2 ^ 53 * 2 powr of_int k"
    unfolding ax using assms by (intro mult_right_mono) (simp_all add: of_int_le_numeral_power_cancel_iff)
  also have "\<dots> = 2 powr of_int (53 + k)"
    by (simp add: powr_add powr_realpow [symmetric])
  finally have ek: "e \<le> 53 + k" by simp
  have r: "round_double x = of_int (round_half_even (x / 2 powr of_int (e - 52))) * 2 powr of_int (e - 52)"
    using x0 by (simp add: round_double_def e_def)
  have d: "x / 2 powr of_int (e - 52) = of_int m * 2 powr of_int (k - e + 52)"
    by (simp add: x_def powr_diff powr_add)
  show ?thesis
  proof (cases "e \<le> 52 + k")
    case True
    then have j: "0 \<le> k - e + 52" by simp
    have "x / 2 powr of_int (e - 52) = of_int m * of_int (2 ^ nat (k - e + 52))"
      unfolding d powr_int_nat [OF j] ..
    then have "x / 2 powr of_int (e - 52) = of_int (m * 2 ^ nat (k - e + 52))"
      by (simp only: of_int_mult)
    then have "round_half_even (x / 2 powr of_int (e - 52)) = m * 2 ^ nat (k - e + 52)"
      by (simp only: round_half_even_of_int)
    then have "round_double x = of_int (m * 2 ^ nat (k - e + 52)) * 2 powr of_int (e - 52)"
      by (simp only: r)
    also have "(of_int (m * 2 ^ nat (k - e + 52)) :: real) = of_int m * 2 powr of_int (k - e + 52)"
      unfolding powr_int_nat [OF j] by (simp only: of_int_mult)
    also have "\<dots> * 2 powr of_int (e - 52) = of_int m * 2 powr of_int k"
      by (simp add: powr_add [symmetric])
    finally show ?thesis by (simp add: x_def)
  next
    case False
    with ek have e: "e = 53 + k" by simp
    have "(2::real) powr of_int e \<le> \<bar>x\<bar>"
      unfolding e_def by (rule floor_log2_bounds(1) [OF x0])
    then have "(2::real) powr of_int (53 + k) \<le> of_int \<bar>m\<bar> * 2 powr of_int k"
      unfolding e ax .
    then have "(2 ^ 53 :: real) * 2 powr of_int k \<le> of_int \<bar>m\<bar> * 2 powr of_int k"
      by (simp add: powr_add powr_realpow [symmetric])
    then have "(2 ^ 53 :: real) \<le> of_int \<bar>m\<bar>"
      by simp
    then have "2 ^ 53 \<le> \<bar>m\<bar>"
      by (simp add: numeral_power_le_of_int_cancel_iff)
    with assms have am: "\<bar>m\<bar> = 2 ^ 53" by simp
    then have "m = 2 ^ 53 \<or> m = - (2 ^ 53)" by (auto simp: abs_if split: if_splits)
    then have ev: "m = 2 * (m div 2)" by auto
    have "k - e + 52 = - 1" using e by simp
    then have "x / 2 powr of_int (e - 52) = of_int m * 2 powr of_int (- 1)"
      by (simp only: d)
    also have "\<dots> = of_int m / 2"
      by (simp add: powr_minus_divide)
    also have "\<dots> = of_int (m div 2)"
      by (subst ev) simp
    finally have "round_half_even (x / 2 powr of_int (e - 52)) = m div 2"
      by (simp only: round_half_even_of_int)
    then have "round_double x = of_int (m div 2) * 2 powr of_int (k + 1)"
      by (simp add: r e add.commute)
    also have "\<dots> = of_int (2 * (m div 2)) * 2 powr of_int k"
      by (simp add: powr_add)
    finally show ?thesis using ev by (simp add: x_def)
  qed
qed

lemma round_double_of_int:
  assumes "\<bar>n\<bar> \<le> 2 ^ 53"
  shows "round_double (of_int n) = of_int n"
  using round_double_representable [OF assms, of 0] by simp

lemma round_double_le_pow2:
  assumes "x \<le> 2 powr of_int k"
  shows "round_double x \<le> 2 powr of_int k"
proof (cases "x \<le> 0")
  case True
  then have "round_double x \<le> 0" by (rule round_double_nonpos)
  moreover have "0 \<le> (2::real) powr of_int k" by simp
  ultimately show ?thesis by linarith
next
  case False
  then have x0: "x \<noteq> 0" and ax: "\<bar>x\<bar> = x" by simp_all
  define e where "e = \<lfloor>log 2 \<bar>x\<bar>\<rfloor>"
  have lo: "2 powr of_int e \<le> x" and hi: "x < 2 powr of_int (e + 1)"
    using floor_log2_bounds [OF x0] by (simp_all add: e_def ax)
  have r: "round_double x = of_int (round_half_even (x / 2 powr of_int (e - 52))) * 2 powr of_int (e - 52)"
    using x0 by (simp add: round_double_def e_def)
  have "(2::real) powr of_int e \<le> 2 powr of_int k" using lo assms by linarith
  then have ek: "e \<le> k" by simp
  have "x / 2 powr of_int (e - 52) \<le> 2 powr of_int (e + 1) / 2 powr of_int (e - 52)"
    using hi by (intro divide_right_mono) simp_all
  also have "\<dots> = of_int (2 ^ 53)"
    by (simp add: powr_diff [symmetric] powr_realpow [symmetric])
  finally have "round_half_even (x / 2 powr of_int (e - 52)) \<le> 2 ^ 53"
    by (rule round_half_even_le)
  then have "of_int (round_half_even (x / 2 powr of_int (e - 52))) \<le> (2 ^ 53 :: real)"
    by (simp add: of_int_le_numeral_power_cancel_iff)
  then have "round_double x \<le> 2 ^ 53 * 2 powr of_int (e - 52)"
    unfolding r by (intro mult_right_mono) simp_all
  also have "\<dots> = 2 powr of_int (e + 1)"
    by (simp add: powr_add powr_realpow [symmetric] powr_diff)
  finally show ?thesis
  proof (cases "e + 1 \<le> k")
    case True
    assume "round_double x \<le> 2 powr of_int (e + 1)"
    moreover have "(2::real) powr of_int (e + 1) \<le> 2 powr of_int k" using True by simp
    ultimately show ?thesis by linarith
  next
    case False
    with ek have "e = k" by simp
    with lo assms have "x = of_int 1 * 2 powr of_int k" by simp
    then show ?thesis
      using round_double_representable [of 1 k] by simp
  qed
qed

lemma round_double_le_1: "x \<le> 1 \<Longrightarrow> round_double x \<le> 1"
  using round_double_le_pow2 [of x 0] by simp

lemma round_double_eval_up:
  assumes "2 ^ 52 \<le> \<bar>x\<bar> * 2 ^ k" "\<bar>x\<bar> * 2 ^ k < 2 ^ 53"
  shows "round_double x = of_int (round_half_even (x * 2 ^ k)) / 2 ^ k"
proof -
  have p: "(2::real) powr of_int (52 - int k) = 2 ^ 52 / 2 ^ k"
    by (simp add: powr_diff powr_realpow [symmetric])
  have p1: "(2::real) powr of_int (52 - int k + 1) = 2 ^ 53 / 2 ^ k"
    by (simp add: powr_diff powr_add powr_realpow [symmetric])
  have q: "(2::real) powr of_int (52 - int k - 52) = 1 / 2 ^ k"
    by (simp add: powr_minus_divide powr_realpow [symmetric])
  have "round_double x = of_int (round_half_even (x / 2 powr of_int (52 - int k - 52)))
          * 2 powr of_int (52 - int k - 52)"
  proof (rule round_double_eval)
    show "2 powr of_int (52 - int k) \<le> \<bar>x\<bar>"
      unfolding p using assms(1) by (simp add: field_simps)
    show "\<bar>x\<bar> < 2 powr of_int (52 - int k + 1)"
      unfolding p1 using assms(2) by (simp add: field_simps)
  qed
  then show ?thesis by (simp only: q) simp
qed

lemma round_double_eval_down:
  assumes "2 ^ 52 \<le> \<bar>x\<bar> / 2 ^ k" "\<bar>x\<bar> / 2 ^ k < 2 ^ 53"
  shows "round_double x = of_int (round_half_even (x / 2 ^ k)) * 2 ^ k"
proof -
  have p: "(2::real) powr of_int (52 + int k) = 2 ^ 52 * 2 ^ k"
    by (simp add: powr_add powr_realpow [symmetric])
  have p1: "(2::real) powr of_int (52 + int k + 1) = 2 ^ 53 * 2 ^ k"
    by (simp add: powr_add powr_realpow [symmetric])
  have q: "(2::real) powr of_int (52 + int k - 52) = 2 ^ k"
    by (simp add: powr_realpow [symmetric])
  have "round_double x = of_int (round_half_even (x / 2 powr of_int (52 + int k - 52)))
          * 2 powr of_int (52 + int k - 52)"
  proof (rule round_double_eval)
    show "2 powr of_int (52 + int k) \<le> \<bar>x\<bar>"
      unfolding p using assms(1) by (simp add: field_simps)
    show "\<bar>x\<bar> < 2 powr of_int (52 + int k + 1)"
      unfolding p1 using assms(2) by (simp add: field_simps)
  qed
  then show ?thesis by (simp only: q)
qed

lemma EPS: "round_double (1 / 10) = 3602879701896397 / 36028797018963968"
  by (subst round_double_eval_up [where k = 56]) (simp_all add: round_half_even_def)

section \<open>Values of the double operations\<close>

lemma EPSILON_value: "EPSILON = 3602879701896397 / 36028797018963968"
  unfolding EPSILON_def
  by (subst round_double_eval_up [where k = 56]) (simp_all add: round_half_even_def)

lemma double_of_int_small: "\<bar>v\<bar> \<le> 2 ^ 53 \<Longrightarrow> double_of_int v = of_int v"
  by (simp add: double_of_int_def round_double_of_int)

lemma fdiv_10_100: "fdiv 10 100 = 3602879701896397 / 36028797018963968"
  unfolding fdiv_def
  by (subst round_double_eval_up [where k = 56]) (simp_all add: round_half_even_def)

lemma fadd_1_EPSILON: "fadd 1 EPSILON = 2476979795053773 / 2251799813685248"
  unfolding fadd_def EPSILON_value
  by (subst round_double_eval_up [where k = 52]) (simp_all add: round_half_even_def)

lemma fmul_1000_tenth: "fmul 1000 (3602879701896397 / 36028797018963968) = 100"
  unfolding fmul_def
  by (subst round_double_eval_up [where k = 46]) (simp_all add: round_half_even_def)

lemma fmul_100_1p1: "fmul 100 (2476979795053773 / 2251799813685248) = 7740561859543041 / 70368744177664"
  unfolding fmul_def
  by (subst round_double_eval_up [where k = 46]) (simp_all add: round_half_even_def)

lemma threshold_scenario:
  "int64_of_double (fmul (fmul (double_of_int (wrap_int64 (100 * 10))) (fdiv (double_of_int 10) 100))
      (fadd 1 EPSILON)) = 110"
  by (simp add: wrap_int64_def double_of_int_small fdiv_10_100 fadd_1_EPSILON fmul_1000_tenth
        fmul_100_1p1 int64_of_double_def)

lemma root_bound_lower:
  fixes a b :: real
  assumes "0 \<le> a" "a ^ n \<le> b" "0 < n"
  shows "a \<le> b powr (1 / real n)"
proof -
  have "a = (a ^ n) powr (1 / real n)"
  proof (cases "a = 0")
    case True
    then show ?thesis using assms(3) by simp
  next
    case False
    then have "0 < a" using assms(1) by simp
    then have "(a ^ n) powr (1 / real n) = (a powr real n) powr (1 / real n)"
      by (simp add: powr_realpow)
    also have "\<dots> = a powr (real n * (1 / real n))" by (rule powr_powr)
    also have "\<dots> = a" using assms(3) \<open>0 < a\<close> by simp
    finally show ?thesis by simp
  qed
  also have "\<dots> \<le> b powr (1 / real n)"
    using assms by (intro powr_mono2) simp_all
  finally show ?thesis .
qed

lemma root_bound_upper:
  fixes a b :: real
  assumes "0 \<le> b" "0 \<le> a" "b \<le> a ^ n" "0 < n"
  shows "b powr (1 / real n) \<le> a"
proof -
  have "b powr (1 / real n) \<le> (a ^ n) powr (1 / real n)"
    using assms by (intro powr_mono2) simp_all
  also have "\<dots> = a"
  proof (cases "a = 0")
    case True
    then show ?thesis using assms(4) by simp
  next
    case False
    then have "0 < a" using assms(2) by simp
    then have "(a ^ n) powr (1 / real n) = (a powr real n) powr (1 / real n)"
      by (simp add: powr_realpow)
    also have "\<dots> = a powr (real n * (1 / real n))" by (rule powr_powr)
    also have "\<dots> = a" using assms(4) \<open>0 < a\<close> by simp
    finally show ?thesis .
  qed
  finally show ?thesis .
qed

lemma smooth_10_range:
  "69 / 100 \<le> EPSILON powr EPSILON" "EPSILON powr EPSILON \<le> 83 / 100"
proof -
  have lo: "1 / 10 \<le> EPSILON" and hi: "EPSILON \<le> 1 / 9" and p: "0 \<le> EPSILON"
    by (simp_all add: EPSILON_value)
  have "(69 / 100 :: real) \<le> (1 / 10) powr (1 / real 9)"
    by (rule root_bound_lower) (simp_all add: power_divide)
  also have "\<dots> \<le> (1 / 10) powr EPSILON"
    using hi by (intro powr_mono') simp_all
  also have "\<dots> \<le> EPSILON powr EPSILON"
    using lo p by (intro powr_mono2) simp_all
  finally show "69 / 100 \<le> EPSILON powr EPSILON" .
  have "EPSILON powr EPSILON \<le> (1 / 9) powr EPSILON"
    using hi p by (intro powr_mono2) simp_all
  also have "\<dots> \<le> (1 / 9) powr (1 / real 10)"
    using lo by (intro powr_mono') simp_all
  also have "\<dots> \<le> 83 / 100"
    by (rule root_bound_upper) (simp_all add: power_divide)
  finally show "EPSILON powr EPSILON \<le> 83 / 100" .
qed

lemma rhe_near_even:
  assumes "d \<in> {- 2, - 1, 0, 1, 2}"
  shows "round_half_even (of_int (2 * n) + of_int d / 4) = 2 * n"
proof -
  have f: "\<lfloor>of_int (2 * n) + of_int d / (4::real)\<rfloor> = 2 * n + \<lfloor>of_int d / (4::real)\<rfloor>"
    by (simp only: int_add_floor)
  from assms consider "d = - 2" | "d = - 1" | "d = 0" | "d = 1" | "d = 2" by auto
  then show ?thesis
  proof cases
    case 1
    have "\<lfloor>of_int d / (4::real)\<rfloor> = - 1" unfolding 1 by simp
    then show ?thesis unfolding round_half_even_def Let_def f by (simp add: 1)
  next
    case 2
    have "\<lfloor>of_int d / (4::real)\<rfloor> = - 1" unfolding 2 by simp
    then show ?thesis unfolding round_half_even_def Let_def f by (simp add: 2)
  next
    case 3
    have "round_half_even (of_int (2 * n)) = 2 * n" by (rule round_half_even_of_int)
    then show ?thesis by (simp add: 3)
  next
    case 4
    have "\<lfloor>of_int d / (4::real)\<rfloor> = 0" unfolding 4 by simp
    then show ?thesis unfolding round_half_even_def Let_def f by (simp add: 4)
  next
    case 5
    have "\<lfloor>of_int d / (4::real)\<rfloor> = 0" unfolding 5 by simp
    then show ?thesis unfolding round_half_even_def Let_def f by (simp add: 5)
  qed
qed

lemma average_100:
  assumes z: "69 / 100 \<le> z" "z \<le> 83 / 100"
  shows "fadd (fmul 100 (round_double z)) (fmul 100 (fsub 1 (round_double z))) = 100"
proof -
  define M where "M = round_half_even (z * 2 ^ 53)"
  define s where "s = round_double z"
  have s: "s = of_int M / 2 ^ 53"
    unfolding s_def M_def using z by (intro round_double_eval_up) simp_all
  have Merr: "\<bar>of_int M - z * 2 ^ 53\<bar> \<le> 1 / 2"
    unfolding M_def by (rule round_half_even_err)
  have M1: "z * 2 ^ 53 - 1 / 2 \<le> of_int M" and M2: "of_int M \<le> z * 2 ^ 53 + 1 / 2"
    using Merr by linarith+
  have slo: "685 / 1000 \<le> s"
    unfolding s using M1 z(1) by (simp add: le_divide_eq)
  have shi: "s \<le> 835 / 1000"
    unfolding s using M2 z(2) by (simp add: divide_le_eq)
  have "1 - s = of_int (2 ^ 53 - M) * 2 powr of_int (- 53)"
    by (simp add: s powr_minus_divide powr_realpow [symmetric] field_simps)
  moreover have "\<bar>2 ^ 53 - M\<bar> \<le> 2 ^ 53"
  proof -
    have "0 \<le> s" "s \<le> 1" using slo shi by simp_all
    then have "0 \<le> (of_int M :: real)" "(of_int M :: real) \<le> 2 ^ 53"
      by (simp_all add: s field_simps)
    then have "0 \<le> M" "M \<le> 2 ^ 53"
      by (simp_all add: of_int_le_numeral_power_cancel_iff)
    then show ?thesis by simp
  qed
  ultimately have t: "fsub 1 s = 1 - s"
    unfolding fsub_def by (simp only: round_double_representable)
  define A where "A = round_half_even (100 * s * 2 ^ 46)"
  define B where "B = round_half_even (100 * (1 - s) * 2 ^ 48)"
  have a: "fmul 100 s = of_int A / 2 ^ 46"
    unfolding fmul_def A_def using slo shi by (intro round_double_eval_up) simp_all
  have b: "fmul 100 (1 - s) = of_int B / 2 ^ 48"
    unfolding fmul_def B_def using slo shi by (intro round_double_eval_up) simp_all
  have Aerr: "\<bar>of_int A - 100 * s * 2 ^ 46\<bar> \<le> 1 / 2"
    unfolding A_def by (rule round_half_even_err)
  have Berr: "\<bar>of_int B - 100 * (1 - s) * 2 ^ 48\<bar> \<le> 1 / 2"
    unfolding B_def by (rule round_half_even_err)
  define D where "D = 4 * A + B - 100 * 2 ^ 48"
  define ea where "ea = of_int A - 100 * s * 2 ^ 46"
  define eb where "eb = of_int B - 100 * (1 - s) * 2 ^ 48"
  have "real_of_int D = 4 * ea + eb"
    by (simp add: D_def ea_def eb_def algebra_simps)
  moreover have "\<bar>ea\<bar> \<le> 1 / 2" "\<bar>eb\<bar> \<le> 1 / 2"
    using Aerr Berr by (simp_all only: ea_def eb_def)
  ultimately have "\<bar>real_of_int D\<bar> \<le> 5 / 2"
    by linarith
  then have "\<bar>D\<bar> \<le> 2" by linarith
  then have Dset: "D \<in> {- 2, - 1, 0, 1, 2}" by auto
  have sum: "fmul 100 s + fmul 100 (1 - s) = (of_int (100 * 2 ^ 48) + of_int D) / 2 ^ 48"
    by (simp add: a b D_def field_simps)
  have Dr: "- 2 \<le> real_of_int D" "real_of_int D \<le> 2"
    using \<open>\<bar>D\<bar> \<le> 2\<close> by linarith+
  have "round_double (fmul 100 s + fmul 100 (1 - s))
        = of_int (round_half_even ((fmul 100 s + fmul 100 (1 - s)) * 2 ^ 46)) / 2 ^ 46"
    using Dr by (intro round_double_eval_up) (simp_all add: sum field_simps)
  also have "(fmul 100 s + fmul 100 (1 - s)) * 2 ^ 46
             = of_int (2 * (25 * 2 ^ 47)) + of_int D / 4"
    by (simp add: sum field_simps)
  also have "round_half_even \<dots> = 2 * (25 * 2 ^ 47)"
    by (rule rhe_near_even [OF Dset])
  finally have "fadd (fmul 100 s) (fmul 100 (1 - s)) = 100"
    by (simp add: fadd_def)
  then show ?thesis by (simp add: t s_def [symmetric])
qed

section \<open>Basic facts\<close>

lemma fresh_EmaErrorRecorder: "fresh (EmaErrorRecorder ws mep)"
  by (simp add: fresh_def EmaErrorRecorder_def)

lemma fresh_Reset: "fresh (Reset r)"
  by (simp add: fresh_def Reset_def)

lemma wrap_int64_id:
  "- 9223372036854775808 \<le> x \<Longrightarrow> x < 9223372036854775808 \<Longrightarrow> wrap_int64 x = x"
  by (simp add: wrap_int64_def)

lemma wrap_int64_0 [simp]: "wrap_int64 0 = 0"
  by (simp add: wrap_int64_def)

lemma max_error_cost_100_10_10:
  "window_size r = 10 \<Longrightarrow> max_error_percent r = 10 \<Longrightarrow> max_error_cost 100 r = 110"
  using threshold_scenario by (simp add: max_error_cost_def)

lemma fmul_300_tenth: "fmul 300 (3602879701896397 / 36028797018963968) = 30"
  unfolding fmul_def
  by (subst round_double_eval_up [where k = 48]) (simp_all add: round_half_even_def)

lemma fmul_30_1p1: "fmul 30 (2476979795053773 / 2251799813685248) = 33"
  unfolding fmul_def
  by (subst round_double_eval_up [where k = 47]) (simp_all add: round_half_even_def)

lemma max_error_cost_100_3_10:
  "window_size r = 3 \<Longrightarrow> max_error_percent r = 10 \<Longrightarrow> max_error_cost 100 r = 33"
  by (simp add: max_error_cost_def wrap_int64_def double_of_int_small fdiv_10_100 fadd_1_EPSILON
        fmul_300_tenth fmul_30_1p1 int64_of_double_def)

lemma wrap_int32_ge: "- 2147483648 \<le> wrap_int32 x"
  by (simp add: wrap_int32_def)

lemma wrap_int32_le: "- 2147483648 \<le> x \<Longrightarrow> wrap_int32 x \<le> x"
  using zmod_le_nonneg_dividend [of "x + 2147483648" 4294967296]
  by (simp add: wrap_int32_def)


lemma UpdateLatency_frame:
  "init_completed (snd (UpdateLatency latency r)) = init_completed r
   \<and> broken (snd (UpdateLatency latency r)) = broken r
   \<and> sample_count (snd (UpdateLatency latency r)) = sample_count r
   \<and> window_size (snd (UpdateLatency latency r)) = window_size r
   \<and> max_error_percent (snd (UpdateLatency latency r)) = max_error_percent r
   \<and> smooth (snd (UpdateLatency latency r)) = smooth r
   \<and> ema_error_cost (snd (UpdateLatency latency r)) = ema_error_cost r
   \<and> ema_latency (snd (UpdateLatency latency r)) = fst (UpdateLatency latency r)"
  by (simp add: UpdateLatency_def Let_def)

lemma UpdateErrorCost_frame:
  "init_completed (snd (UpdateErrorCost fl c l r)) = init_completed r
   \<and> broken (snd (UpdateErrorCost fl c l r)) = broken r
   \<and> sample_count (snd (UpdateErrorCost fl c l r)) = sample_count r
   \<and> window_size (snd (UpdateErrorCost fl c l r)) = window_size r
   \<and> max_error_percent (snd (UpdateErrorCost fl c l r)) = max_error_percent r
   \<and> smooth (snd (UpdateErrorCost fl c l r)) = smooth r
   \<and> ema_latency (snd (UpdateErrorCost fl c l r)) = ema_latency r"
  by (simp add: UpdateErrorCost_def Let_def)

lemma update_stats_frame:
  "init_completed (snd (update_stats fl e l r)) = init_completed r
   \<and> broken (snd (update_stats fl e l r)) = broken r
   \<and> sample_count (snd (update_stats fl e l r)) = sample_count r
   \<and> window_size (snd (update_stats fl e l r)) = window_size r
   \<and> max_error_percent (snd (update_stats fl e l r)) = max_error_percent r
   \<and> smooth (snd (update_stats fl e l r)) = smooth r"
  using UpdateLatency_frame [of l r]
  by (simp add: update_stats_def Let_def UpdateErrorCost_frame split: prod.splits)
     (metis UpdateErrorCost_frame snd_conv)

lemma OnCallEnd_frame:
  "window_size (snd (OnCallEnd fl e l r)) = window_size r
   \<and> max_error_percent (snd (OnCallEnd fl e l r)) = max_error_percent r
   \<and> smooth (snd (OnCallEnd fl e l r)) = smooth r"
  using update_stats_frame [of fl e l r]
  by (simp add: OnCallEnd_def update_stats_def [symmetric] Let_def split: prod.splits) auto

lemma OnCallEnd_warm_up:
  assumes "\<not> init_completed r" "\<not> broken r" "sample_count r < window_size r"
  shows "fst (OnCallEnd fl e l r) \<and> \<not> init_completed (snd (OnCallEnd fl e l r))
       \<and> \<not> broken (snd (OnCallEnd fl e l r))
       \<and> sample_count (snd (OnCallEnd fl e l r)) = wrap_int32 (sample_count r + 1)"
  using assms update_stats_frame [of fl e l r]
  by (simp add: OnCallEnd_def update_stats_def [symmetric] Let_def split: prod.splits) auto

lemma update_stats_0:
  "update_stats fl 0 l r = UpdateErrorCost fl 0 (fst (UpdateLatency l r)) (snd (UpdateLatency l r))"
  by (simp add: update_stats_def split: prod.splits)

lemma update_stats_failure:
  "e \<noteq> 0 \<Longrightarrow> update_stats fl e l r = UpdateErrorCost fl l (ema_latency r) r"
  by (simp add: update_stats_def)

text \<open>What \<open>OnCallEnd\<close> returns and stores, in terms of \<open>update_stats\<close>.\<close>

lemma OnCallEnd_unfold:
  assumes "\<not> broken r"
  shows "OnCallEnd fl e l r =
    (let h = fst (update_stats fl e l r); r1 = snd (update_stats fl e l r);
         r2 = r1\<lparr>sample_count := wrap_int32 (sample_count r + 1)\<rparr>;
         completed = (init_completed r \<or> sample_count r \<ge> window_size r)
     in (completed \<longrightarrow> h,
         r2\<lparr>init_completed := completed, broken := (completed \<and> \<not> h)\<rparr>))"
  using assms update_stats_frame [of fl e l r]
  by (cases "update_stats fl e l r")
     (auto simp add: OnCallEnd_def update_stats_def [symmetric] Let_def)

lemma OnCallEnd_fields:
  assumes "\<not> broken r"
  shows "ema_latency (snd (OnCallEnd fl e l r)) = ema_latency (snd (update_stats fl e l r))"
    and "ema_error_cost (snd (OnCallEnd fl e l r)) = ema_error_cost (snd (update_stats fl e l r))"
    and "sample_count (snd (OnCallEnd fl e l r)) = wrap_int32 (sample_count r + 1)"
    and "init_completed (snd (OnCallEnd fl e l r)) = (init_completed r \<or> sample_count r \<ge> window_size r)"
    and "fst (OnCallEnd fl e l r) = (init_completed (snd (OnCallEnd fl e l r)) \<longrightarrow> fst (update_stats fl e l r))"
    and "broken (snd (OnCallEnd fl e l r)) = (init_completed (snd (OnCallEnd fl e l r)) \<and> \<not> fst (update_stats fl e l r))"
  by (simp_all add: OnCallEnd_unfold [OF assms] Let_def)

lemma run_calls_Cons:
  "run_calls fl ((e, l) # cs) r =
     (fst (OnCallEnd fl e l r) # fst (run_calls fl cs (snd (OnCallEnd fl e l r))),
      snd (run_calls fl cs (snd (OnCallEnd fl e l r))))"
  by (simp split: prod.splits)

declare run_calls.simps(2) [simp del]

declare run_calls_Cons [simp]

lemma length_run_calls: "length (fst (run_calls fl cs r)) = length cs"
proof (induction cs arbitrary: r)
  case Nil
  show ?case by simp
next
  case (Cons c cs)
  then show ?case by (cases c) simp
qed

lemma OnCallEnd_broken: "broken r \<Longrightarrow> OnCallEnd fl error_code latency r = (False, r)"
  by (simp add: OnCallEnd_def)

lemma OnCallEnd_false_broken:
  "\<not> fst (OnCallEnd fl error_code latency r) \<Longrightarrow>
   broken (snd (OnCallEnd fl error_code latency r))"
  by (auto simp add: OnCallEnd_def Let_def split: prod.splits if_splits)

lemma run_calls_broken:
  "broken r \<Longrightarrow> run_calls fl cs r = (replicate (length cs) False, r)"
  by (induction cs) (auto simp add: OnCallEnd_broken)

text \<open>
  The recorder of the scenario \<open>window_size = 10\<close>, \<open>max_error_percent = 10\<close> after ten
  successes of latency 100, and the failure of latency 10000 that trips it.
\<close>

lemma trip_example:
  "OnCallEnd default_flags 1 10000
     ((EmaErrorRecorder 10 10)\<lparr>ema_latency := 100, sample_count := 10\<rparr>)
   = (False, (EmaErrorRecorder 10 10)\<lparr>ema_latency := 100, sample_count := 11,
               ema_error_cost := 200, init_completed := True, broken := True\<rparr>)"
  by (simp add: OnCallEnd_def UpdateErrorCost_def default_flags_def EmaErrorRecorder_def
        max_error_cost_100_10_10 wrap_int64_def wrap_int32_def Let_def)

section \<open>Reset\<close>

text \<open>
  Claim C9. From every state, \<open>Reset\<close> leaves \<open>init_completed\<close> false, \<open>sample_count\<close>,
  \<open>ema_error_cost\<close> and \<open>ema_latency\<close> zero and \<open>broken\<close> false; the three fields fixed at
  construction keep their values; and a second \<open>Reset\<close> right after the first gives the
  state the first one gave.
\<close>

theorem Reset_zeroes_and_idempotent:
  "\<not> init_completed (Reset r) \<and> sample_count (Reset r) = 0 \<and> ema_error_cost (Reset r) = 0
   \<and> ema_latency (Reset r) = 0 \<and> \<not> broken (Reset r)
   \<and> window_size (Reset r) = window_size r
   \<and> max_error_percent (Reset r) = max_error_percent r
   \<and> smooth (Reset r) = smooth r
   \<and> Reset (Reset r) = Reset r"
  by (simp add: Reset_def)

section \<open>The sticky latch\<close>

text \<open>
  Claim C2. When a call of \<open>OnCallEnd\<close> returns false, the recorder it leaves is broken;
  every later call on it, whatever its error code and latency, returns false and leaves the
  whole recorder as it was, and so does every sequence of later calls. A broken recorder
  stays broken under \<open>OnCallEnd\<close>; \<open>Reset\<close> clears the flag.
\<close>

theorem sticky_trip:
  assumes "\<not> fst (OnCallEnd fl error_code latency r)"
  shows "broken (snd (OnCallEnd fl error_code latency r))
     \<and> OnCallEnd fl error_code' latency' (snd (OnCallEnd fl error_code latency r))
         = (False, snd (OnCallEnd fl error_code latency r))
     \<and> run_calls fl cs (snd (OnCallEnd fl error_code latency r))
         = (replicate (length cs) False, snd (OnCallEnd fl error_code latency r))
     \<and> (broken r' \<longrightarrow> broken (snd (OnCallEnd fl error_code' latency' r')))
     \<and> \<not> broken (Reset (snd (OnCallEnd fl error_code latency r)))"
  using assms OnCallEnd_false_broken [of fl error_code latency r]
  by (simp add: OnCallEnd_broken run_calls_broken Reset_def)

theorem sticky_trip_witness:
  "\<not> fst (OnCallEnd default_flags 1 10000
            ((EmaErrorRecorder 10 10)\<lparr>ema_latency := 100, sample_count := 10\<rparr>))
   \<and> run_calls default_flags [(0, 100), (1, 5), (0, 0)]
        (snd (OnCallEnd default_flags 1 10000
               ((EmaErrorRecorder 10 10)\<lparr>ema_latency := 100, sample_count := 10\<rparr>)))
      = ([False, False, False],
         (EmaErrorRecorder 10 10)\<lparr>ema_latency := 100, sample_count := 11,
            ema_error_cost := 200, init_completed := True, broken := True\<rparr>)"
proof -
  let ?r = "(EmaErrorRecorder 10 10)\<lparr>ema_latency := 100, sample_count := 10\<rparr>"
  have f: "\<not> fst (OnCallEnd default_flags 1 10000 ?r)"
    by (simp add: trip_example)
  from sticky_trip [OF f, of _ _ "[(0, 100), (1, 5), (0, 0)]"] f show ?thesis
    by (simp add: trip_example numeral_3_eq_3)
qed

section \<open>The two windows\<close>

text \<open>
  Claim C5. \<open>CircuitBreaker::OnCallEnd\<close> gives the call to the long window first and
  stores the recorder that call leaves. When the long window returns false, the short
  window is not called: its recorder, sample count included, is the one it was, and the
  result is false. The result is true exactly when the long window returned true and the
  short window, called after it, returned true.
\<close>

theorem CircuitBreaker_OnCallEnd_short_circuit:
  "long_window (snd (CircuitBreaker_OnCallEnd fl error_code latency cb))
     = snd (OnCallEnd fl error_code latency (long_window cb))
   \<and> (\<not> fst (OnCallEnd fl error_code latency (long_window cb)) \<longrightarrow>
        short_window (snd (CircuitBreaker_OnCallEnd fl error_code latency cb)) = short_window cb
        \<and> \<not> fst (CircuitBreaker_OnCallEnd fl error_code latency cb))
   \<and> (fst (OnCallEnd fl error_code latency (long_window cb)) \<longrightarrow>
        short_window (snd (CircuitBreaker_OnCallEnd fl error_code latency cb))
          = snd (OnCallEnd fl error_code latency (short_window cb)))
   \<and> (fst (CircuitBreaker_OnCallEnd fl error_code latency cb) \<longleftrightarrow>
        fst (OnCallEnd fl error_code latency (long_window cb))
        \<and> fst (OnCallEnd fl error_code latency (short_window cb)))"
  by (simp add: CircuitBreaker_OnCallEnd_def Let_def split: prod.splits)

text \<open>
  The long window of the scenario trips on the failure while the short window, of size 100,
  has seen ten calls: the short window keeps its count of ten.
\<close>

theorem CircuitBreaker_OnCallEnd_short_circuit_witness:
  "\<not> fst (OnCallEnd default_flags 1 10000
            ((EmaErrorRecorder 10 10)\<lparr>ema_latency := 100, sample_count := 10\<rparr>))
   \<and> CircuitBreaker_OnCallEnd default_flags 1 10000
        \<lparr> long_window = (EmaErrorRecorder 10 10)\<lparr>ema_latency := 100, sample_count := 10\<rparr>,
          short_window = (EmaErrorRecorder 100 5)\<lparr>ema_latency := 100, sample_count := 10\<rparr> \<rparr>
      = (False,
         \<lparr> long_window = (EmaErrorRecorder 10 10)\<lparr>ema_latency := 100, sample_count := 11,
              ema_error_cost := 200, init_completed := True, broken := True\<rparr>,
           short_window = (EmaErrorRecorder 100 5)\<lparr>ema_latency := 100, sample_count := 10\<rparr> \<rparr>)"
proof -
  let ?cb = "\<lparr> long_window = (EmaErrorRecorder 10 10)\<lparr>ema_latency := 100, sample_count := 10\<rparr>,
               short_window = (EmaErrorRecorder 100 5)\<lparr>ema_latency := 100, sample_count := 10\<rparr> \<rparr>"
  have f: "\<not> fst (OnCallEnd default_flags 1 10000 (long_window ?cb))"
    by (simp add: trip_example)
  from CircuitBreaker_OnCallEnd_short_circuit [of default_flags 1 10000 ?cb] f
  have "short_window (snd (CircuitBreaker_OnCallEnd default_flags 1 10000 ?cb))
          = short_window ?cb
        \<and> \<not> fst (CircuitBreaker_OnCallEnd default_flags 1 10000 ?cb)
        \<and> long_window (snd (CircuitBreaker_OnCallEnd default_flags 1 10000 ?cb))
          = snd (OnCallEnd default_flags 1 10000 (long_window ?cb))"
    by blast
  then show ?thesis
    by (cases "CircuitBreaker_OnCallEnd default_flags 1 10000 ?cb")
       (simp add: trip_example)
qed

section \<open>Warm-up\<close>

lemma run_calls_warm_up:
  "\<not> init_completed r \<Longrightarrow> \<not> broken r \<Longrightarrow> - 2147483648 \<le> sample_count r \<Longrightarrow>
   i < length cs \<Longrightarrow> sample_count r + int i < window_size r \<Longrightarrow>
   fst (run_calls fl cs r) ! i"
proof (induction cs arbitrary: r i)
  case Nil
  then show ?case by simp
next
  case (Cons c cs)
  obtain e l where c: "c = (e, l)" by (cases c)
  let ?r1 = "snd (OnCallEnd fl e l r)"
  from Cons.prems have lt: "sample_count r < window_size r" by simp
  note step = OnCallEnd_warm_up [OF Cons.prems(1) Cons.prems(2) lt, of fl e l]
  show ?case
  proof (cases i)
    case 0
    with step show ?thesis by (simp only: c run_calls_Cons fst_conv nth_Cons_0)
  next
    case (Suc j)
    have le: "sample_count ?r1 \<le> sample_count r + 1"
      using step wrap_int32_le [of "sample_count r + 1"] Cons.prems(3) by simp
    have ge: "- 2147483648 \<le> sample_count ?r1"
      using step wrap_int32_ge [of "sample_count r + 1"] by simp
    have ws: "window_size ?r1 = window_size r"
      by (simp add: OnCallEnd_frame)
    have "fst (run_calls fl cs ?r1) ! j"
    proof (rule Cons.IH)
      show "\<not> init_completed ?r1" using step by simp
      show "\<not> broken ?r1" using step by simp
      show "- 2147483648 \<le> sample_count ?r1" by (rule ge)
      show "j < length cs" using Cons.prems(4) Suc by simp
      show "sample_count ?r1 + int j < window_size ?r1"
        using le ws Cons.prems(5) Suc by simp
    qed
    then show ?thesis by (simp only: c Suc run_calls_Cons fst_conv nth_Cons_Suc)
  qed
qed

text \<open>
  Claim C3. On a recorder in the state that the constructor and \<open>Reset\<close> leave, with
  \<open>window_size = N\<close> and \<open>N \<ge> 1\<close>, call number \<open>i + 1\<close> of any sequence of calls returns
  true whenever \<open>i < N - 1\<close>: each of the first \<open>N - 1\<close> calls returns true, whatever the
  error codes and latencies are.
\<close>

theorem warm_up_masking:
  assumes "fresh r" and "1 \<le> window_size r"
    and "i < length cs" and "int i < window_size r - 1"
  shows "fst (run_calls fl cs r) ! i"
  using assms by (intro run_calls_warm_up) (simp_all add: fresh_def)

text \<open>The source masks one call more: call number \<open>N\<close> still finds the count below \<open>N\<close>.\<close>

lemma first_window_calls_masked:
  assumes "fresh r" and "i < length cs" and "int i < window_size r"
  shows "fst (run_calls fl cs r) ! i"
  using assms by (intro run_calls_warm_up) (simp_all add: fresh_def)

text \<open>
  A window of three: one success, then failures of latency 10000. The second call is
  already over the threshold and returns true; the fourth call is the first one that
  returns false.
\<close>

theorem warm_up_masking_witness:
  "fresh (EmaErrorRecorder 3 10) \<and> 1 \<le> window_size (EmaErrorRecorder 3 10)
   \<and> 1 < length [(0, 100), (1, 10000), (1, 10000), (1, 10000 :: int)]
   \<and> int 1 < window_size (EmaErrorRecorder 3 10) - 1
   \<and> fst (run_calls default_flags [(0, 100), (1, 10000), (1, 10000), (1, 10000)]
            (EmaErrorRecorder 3 10)) ! 1
   \<and> fst (run_calls default_flags [(0, 100), (1, 10000), (1, 10000), (1, 10000)]
            (EmaErrorRecorder 3 10)) = [True, True, True, False]"
proof -
  have w: "window_size (EmaErrorRecorder 3 10) = 3"
    by (simp add: EmaErrorRecorder_def)
  have "fst (run_calls default_flags [(0, 100), (1, 10000), (1, 10000), (1, 10000)]
            (EmaErrorRecorder 3 10)) = [True, True, True, False]"
    by (simp add: OnCallEnd_def UpdateLatency_def UpdateErrorCost_def default_flags_def
          EmaErrorRecorder_def max_error_cost_100_3_10 wrap_int64_def wrap_int32_def Let_def)
  with warm_up_masking [of "EmaErrorRecorder 3 10" 1
      "[(0, 100), (1, 10000), (1, 10000), (1, 10000)]" default_flags]
  show ?thesis
    by (simp add: fresh_EmaErrorRecorder w)
qed

section \<open>The scenario of the specification\<close>

lemma pow_EPSILON_10: "pow_EPSILON 10 = round_double (EPSILON powr EPSILON)"
proof -
  have "fdiv 1 (double_of_int 10) = EPSILON"
    by (simp add: double_of_int_small fdiv_def EPSILON_def)
  then show ?thesis by (simp add: pow_EPSILON_def pow_double_def)
qed

lemma average_scenario:
  "int64_of_double (fadd (fmul (double_of_int 100) (pow_EPSILON 10))
                         (fmul (double_of_int 100) (fsub 1 (pow_EPSILON 10)))) = 100"
  using average_100 [OF smooth_10_range]
  by (simp add: pow_EPSILON_10 double_of_int_small int64_of_double_def)

lemma scenario_first_success:
  "OnCallEnd (default_flags\<lparr>circuit_breaker_min_error_cost_us := 1\<rparr>) 0 100
     (EmaErrorRecorder 10 10)
   = (True, (EmaErrorRecorder 10 10)\<lparr>ema_latency := 100, sample_count := 1\<rparr>)"
  by (simp add: OnCallEnd_def UpdateLatency_def UpdateErrorCost_def default_flags_def
        EmaErrorRecorder_def wrap_int64_def wrap_int32_def Let_def)

lemma scenario_next_success:
  "0 \<le> k \<Longrightarrow> k < 10 \<Longrightarrow>
   OnCallEnd (default_flags\<lparr>circuit_breaker_min_error_cost_us := 1\<rparr>) 0 100
     ((EmaErrorRecorder 10 10)\<lparr>ema_latency := 100, sample_count := k\<rparr>)
   = (True, (EmaErrorRecorder 10 10)\<lparr>ema_latency := 100, sample_count := k + 1\<rparr>)"
  by (simp add: OnCallEnd_def UpdateLatency_def UpdateErrorCost_def default_flags_def
        EmaErrorRecorder_def average_scenario wrap_int64_def wrap_int32_def Let_def)

text \<open>
  Claim C6. Window size 10, error percent 10, minimum error cost 1, latency multiple 2. Ten
  successes of latency 100 on the new recorder all return true and leave \<open>ema_latency = 100\<close>
  and a sample count of 10, the count that completes the warm-up at the next call. The
  failure of latency 10000 that follows has the cost \<open>min (100 * 2) 10000 = 200\<close>, the
  threshold is 110, and the call returns false with \<open>ema_error_cost = 200\<close>,
  \<open>init_completed\<close> and \<open>broken\<close> set.
\<close>

theorem concrete_scenario:
  "run_calls (default_flags\<lparr>circuit_breaker_min_error_cost_us := 1\<rparr>)
     [(0, 100), (0, 100), (0, 100), (0, 100), (0, 100),
      (0, 100), (0, 100), (0, 100), (0, 100), (0, 100)] (EmaErrorRecorder 10 10)
   = ([True, True, True, True, True, True, True, True, True, True],
      (EmaErrorRecorder 10 10)\<lparr>ema_latency := 100, sample_count := 10\<rparr>)
   \<and> min (100 * circuit_breaker_max_failed_latency_mutliple
                  (default_flags\<lparr>circuit_breaker_min_error_cost_us := 1\<rparr>)) 10000 = 200
   \<and> int64_of_double (real_of_int (100 * 10) * (real_of_int 10 / 100) * (1 + EPSILON)) = 110
   \<and> max_error_cost 100 ((EmaErrorRecorder 10 10)\<lparr>ema_latency := 100, sample_count := 10\<rparr>)
       = 110
   \<and> OnCallEnd (default_flags\<lparr>circuit_breaker_min_error_cost_us := 1\<rparr>) 1 10000
        ((EmaErrorRecorder 10 10)\<lparr>ema_latency := 100, sample_count := 10\<rparr>)
      = (False, (EmaErrorRecorder 10 10)\<lparr>ema_latency := 100, ema_error_cost := 200,
                   sample_count := 11, init_completed := True, broken := True\<rparr>)"
proof -
  let ?fl = "default_flags\<lparr>circuit_breaker_min_error_cost_us := 1\<rparr>"
  have run: "run_calls ?fl
     [(0, 100), (0, 100), (0, 100), (0, 100), (0, 100),
      (0, 100), (0, 100), (0, 100), (0, 100), (0, 100)] (EmaErrorRecorder 10 10)
   = ([True, True, True, True, True, True, True, True, True, True],
      (EmaErrorRecorder 10 10)\<lparr>ema_latency := 100, sample_count := 10\<rparr>)"
    by (simp add: run_calls.simps(2) scenario_first_success scenario_next_success
          del: run_calls_Cons)
  have cost: "min (100 * circuit_breaker_max_failed_latency_mutliple ?fl) 10000 = 200"
    by (simp add: default_flags_def)
  have thr: "int64_of_double (real_of_int (100 * 10) * (real_of_int 10 / 100) * (1 + EPSILON)) = 110"
    by (simp add: int64_of_double_def EPSILON_value)
  have mec: "max_error_cost 100
               ((EmaErrorRecorder 10 10)\<lparr>ema_latency := 100, sample_count := 10\<rparr>) = 110"
    by (rule max_error_cost_100_10_10) (simp_all add: EmaErrorRecorder_def)
  have trip: "OnCallEnd ?fl 1 10000
        ((EmaErrorRecorder 10 10)\<lparr>ema_latency := 100, sample_count := 10\<rparr>)
      = (False, (EmaErrorRecorder 10 10)\<lparr>ema_latency := 100, ema_error_cost := 200,
                   sample_count := 11, init_completed := True, broken := True\<rparr>)"
    by (simp add: OnCallEnd_def UpdateErrorCost_def default_flags_def EmaErrorRecorder_def
          max_error_cost_100_10_10 wrap_int64_def wrap_int32_def Let_def)
  from run cost thr mec trip show ?thesis by (simp only: simp_thms)
qed

section \<open>Failures before the first success\<close>





text \<open>
  The hypothesis on the latencies is needed: a failure of latency \<open>- 2\<^sup>6\<^sup>3\<close> is added to the
  error cost as it is, a second one of latency \<open>- 1\<close> wraps the sum to \<open>2\<^sup>6\<^sup>3 - 1\<close>, above
  the threshold \<open>0\<close>, and in a window of one that second call returns false.
\<close>

lemma failures_of_negative_latency:
  "fst (run_calls default_flags [(1, - 9223372036854775808), (1, - 1)] (EmaErrorRecorder 1 3))
   = [True, False]"
proof -
  have z: "max_error_cost 0 r = 0" for r
    by (simp add: max_error_cost_def double_of_int_def fmul_def int64_of_double_def)
  show ?thesis
    by (simp add: run_calls.simps(2) OnCallEnd_def UpdateErrorCost_def default_flags_def
          EmaErrorRecorder_def z wrap_int64_def wrap_int32_def Let_def del: run_calls_Cons)
qed

section \<open>The cost of a failure\<close>

lemma round_double_ub: "0 \<le> x \<Longrightarrow> round_double x \<le> x * (1 + 1 / 2 ^ 53)"
proof -
  assume "0 \<le> x"
  then have "round_double x - x \<le> x / 2 ^ 53"
    using round_double_rel_err [of x] by linarith
  then show ?thesis by (simp add: algebra_simps)
qed

lemma int64_of_double_floor:
  "0 \<le> x \<Longrightarrow> x < 9223372036854775808 \<Longrightarrow> int64_of_double x = \<lfloor>x\<rfloor>"
proof -
  assume a: "0 \<le> x" "x < 9223372036854775808"
  then have "0 \<le> \<lfloor>x\<rfloor>" "\<lfloor>x\<rfloor> < 9223372036854775808"
    by (simp_all add: floor_less_iff)
  then show ?thesis using a(1) by (simp add: int64_of_double_def)
qed

lemma pow_EPSILON_10_range: "0 \<le> pow_EPSILON 10" "pow_EPSILON 10 \<le> 84 / 100"
proof -
  have z: "0 \<le> EPSILON powr EPSILON" by simp
  show "0 \<le> pow_EPSILON 10"
    unfolding pow_EPSILON_10 by (rule round_double_nonneg [OF z])
  have "pow_EPSILON 10 \<le> EPSILON powr EPSILON * (1 + 1 / 2 ^ 53)"
    unfolding pow_EPSILON_10 by (rule round_double_ub [OF z])
  also have "\<dots> \<le> 83 / 100 * (1 + 1 / 2 ^ 53)"
    using smooth_10_range(2) by (intro mult_right_mono) simp_all
  also have "\<dots> \<le> 84 / 100" by simp
  finally show "pow_EPSILON 10 \<le> 84 / 100" .
qed

lemma decay_1800: "int64_of_double (fmul (double_of_int 1800) (pow_EPSILON 10)) < 1800"
proof -
  define x where "x = 1800 * pow_EPSILON 10"
  have x: "0 \<le> x" "x \<le> 1512"
    using pow_EPSILON_10_range by (simp_all add: x_def)
  have r0: "0 \<le> round_double x" by (rule round_double_nonneg [OF x(1)])
  have "round_double x \<le> x * (1 + 1 / 2 ^ 53)" by (rule round_double_ub [OF x(1)])
  also have "\<dots> \<le> 1512 * (1 + 1 / 2 ^ 53)"
    using x(2) by (intro mult_right_mono) simp_all
  also have "\<dots> < 1513" by simp
  finally have r1: "round_double x < 1513" .
  then have "int64_of_double (round_double x) = \<lfloor>round_double x\<rfloor>"
    using r0 by (intro int64_of_double_floor) simp_all
  moreover have "\<lfloor>round_double x\<rfloor> < 1513" using r1 by (simp add: floor_less_iff)
  ultimately show ?thesis
    by (simp add: fmul_def double_of_int_small x_def)
qed

text \<open>
  Claim C1 as stated fails when the capped cost is \<open>0\<close>. The recorder below is the one
  that a success of latency 100 and nine failures of latency 10000 leave in a window of ten
  (lemma \<open>warm_up_failures_reachable\<close>); it is not broken, and the next call completes the
  warm-up. A failure of latency \<open>0\<close> has the cost \<open>min (100 * 2) 0 = 0\<close>. The claim gives
  the verdict \<open>1800 + 0 \<le> 110\<close>, which is false for the threshold of the claim's formula and
  for the threshold the source computes, and the error cost \<open>1800 + 0\<close>; the source takes the
  branch of an ordinary response, the verdict is true, \<open>OnCallEnd\<close> returns true and the
  error cost decays below 1800.
\<close>

theorem failure_cost_counterexample:
  "\<not> broken ((EmaErrorRecorder 10 10)\<lparr>ema_latency := 100, ema_error_cost := 1800,
                 sample_count := 10\<rparr>)
   \<and> fst (OnCallEnd default_flags 1 0
            ((EmaErrorRecorder 10 10)\<lparr>ema_latency := 100, ema_error_cost := 1800,
               sample_count := 10\<rparr>))
   \<and> fst (UpdateErrorCost default_flags 0 100
            ((EmaErrorRecorder 10 10)\<lparr>ema_latency := 100, ema_error_cost := 1800,
               sample_count := 10\<rparr>))
   \<and> \<not> (real_of_int (1800 + min (100 * circuit_breaker_max_failed_latency_mutliple default_flags) 0)
          \<le> real_of_int 100 * real_of_int 10 * (real_of_int 10 / 100) * (1 + EPSILON))
   \<and> \<not> (1800 + min (100 * circuit_breaker_max_failed_latency_mutliple default_flags) 0
          \<le> max_error_cost 100
               ((EmaErrorRecorder 10 10)\<lparr>ema_latency := 100, ema_error_cost := 1800,
                  sample_count := 10\<rparr>))
   \<and> ema_error_cost (snd (OnCallEnd default_flags 1 0
            ((EmaErrorRecorder 10 10)\<lparr>ema_latency := 100, ema_error_cost := 1800,
               sample_count := 10\<rparr>)))
       < 1800 + min (100 * circuit_breaker_max_failed_latency_mutliple default_flags) 0"
proof -
  have m: "max_error_cost 100 r = 110" if "window_size r = 10" "max_error_percent r = 10" for r
    using that by (rule max_error_cost_100_10_10)
  show ?thesis
    using decay_1800
    by (simp add: m OnCallEnd_def UpdateErrorCost_def default_flags_def EmaErrorRecorder_def
          EPSILON_value wrap_int64_def wrap_int32_def Let_def)
qed

lemma warm_up_failures_reachable:
  "run_calls default_flags
     [(0, 100), (1, 10000), (1, 10000), (1, 10000), (1, 10000),
      (1, 10000), (1, 10000), (1, 10000), (1, 10000), (1, 10000)] (EmaErrorRecorder 10 10)
   = ([True, True, True, True, True, True, True, True, True, True],
      (EmaErrorRecorder 10 10)\<lparr>ema_latency := 100, ema_error_cost := 1800,
         sample_count := 10\<rparr>)"
  by (simp add: run_calls.simps(2) OnCallEnd_def UpdateLatency_def UpdateErrorCost_def
        default_flags_def EmaErrorRecorder_def wrap_int64_def wrap_int32_def
        Let_def del: run_calls_Cons)

lemma UpdateErrorCost_zero_cost:
  assumes "min (wrap_int64 (el * circuit_breaker_max_failed_latency_mutliple fl)) c = 0"
  shows "fst (UpdateErrorCost fl c el r)
       \<and> ema_error_cost (snd (UpdateErrorCost fl c el r)) =
           (if ema_error_cost r = 0 then 0
            else if ema_error_cost r < circuit_breaker_min_error_cost_us fl then 0
            else int64_of_double (fmul (double_of_int (ema_error_cost r)) (smooth r)))"
  using assms by (simp add: UpdateErrorCost_def Let_def)

lemma UpdateErrorCost_nonzero_cost:
  assumes "min (wrap_int64 (el * circuit_breaker_max_failed_latency_mutliple fl)) c \<noteq> 0"
  shows "fst (UpdateErrorCost fl c el r) =
           (wrap_int64 (ema_error_cost r
              + min (wrap_int64 (el * circuit_breaker_max_failed_latency_mutliple fl)) c)
             \<le> max_error_cost el r)
       \<and> ema_error_cost (snd (UpdateErrorCost fl c el r)) =
           wrap_int64 (ema_error_cost r
             + min (wrap_int64 (el * circuit_breaker_max_failed_latency_mutliple fl)) c)"
  using assms by (simp add: UpdateErrorCost_def Let_def)

text \<open>The threshold of window 10, percent 57 and average 500 is 3134: the doubles give
  3134.9999999999995 where the exact product is 3135.\<close>

lemma fdiv_57_100: "fdiv 57 100 = 5134103575202365 / 9007199254740992"
  unfolding fdiv_def
  by (subst round_double_eval_up [where k = 53]) (simp_all add: round_half_even_def)

lemma fmul_5000_57: "fmul 5000 (5134103575202365 / 9007199254740992)
                     = 6267216278323199 / 2199023255552"
  unfolding fmul_def
  by (subst round_double_eval_up [where k = 41]) (simp_all add: round_half_even_def)

lemma fmul_2850_1p1: "fmul (6267216278323199 / 2199023255552) (2476979795053773 / 2251799813685248)
                      = 6893937906155519 / 2199023255552"
  unfolding fmul_def
  by (subst round_double_eval_up [where k = 41]) (simp_all add: round_half_even_def)

lemma max_error_cost_500_10_57:
  "window_size r = 10 \<Longrightarrow> max_error_percent r = 57 \<Longrightarrow> max_error_cost 500 r = 3134"
  by (simp add: max_error_cost_def wrap_int64_def double_of_int_small fdiv_57_100 fadd_1_EPSILON
        fmul_5000_57 fmul_2850_1p1 int64_of_double_def)

text \<open>
  Claim C1, amended. For a call \<open>OnCallEnd(error_code, latency)\<close> with a nonzero error code
  on a recorder that is not broken, let \<open>cost = min (ema_latency * multiple) latency\<close>, the
  product taken in \<open>int64_t\<close>. When \<open>cost\<close> is not \<open>0\<close>, it is added to \<open>ema_error_cost\<close>
  (in \<open>int64_t\<close>) and the verdict \<open>healthy\<close> is that the sum is at most \<open>max_error_cost\<close>,
  the value of \<open>ema_latency * window_size * (max_error_percent / 100.0) * (1.0 + EPSILON)\<close>
  as the source computes it: the first product in \<open>int64_t\<close>, the other operations in
  doubles, the result converted to \<open>int64_t\<close>. When \<open>cost\<close> is \<open>0\<close>, the call is treated as an
  ordinary response: the verdict is true and the error cost decays. In both cases
  \<open>ema_latency\<close> keeps its value, the call returns the verdict once the warm-up is complete
  and true before, and the recorder becomes broken exactly when the warm-up is complete and
  the verdict is false.
\<close>

theorem failure_cost_accounting:
  assumes "\<not> broken r" and "error_code \<noteq> 0"
  shows "(min (wrap_int64 (ema_latency r * circuit_breaker_max_failed_latency_mutliple fl)) latency
            \<noteq> 0 \<longrightarrow>
           ema_error_cost (snd (OnCallEnd fl error_code latency r))
             = wrap_int64 (ema_error_cost r
                 + min (wrap_int64 (ema_latency r * circuit_breaker_max_failed_latency_mutliple fl))
                       latency)
           \<and> (fst (UpdateErrorCost fl latency (ema_latency r) r) \<longleftrightarrow>
                wrap_int64 (ema_error_cost r
                  + min (wrap_int64 (ema_latency r * circuit_breaker_max_failed_latency_mutliple fl))
                        latency)
                \<le> max_error_cost (ema_latency r) r))
       \<and> (min (wrap_int64 (ema_latency r * circuit_breaker_max_failed_latency_mutliple fl)) latency
            = 0 \<longrightarrow>
            fst (UpdateErrorCost fl latency (ema_latency r) r)
            \<and> ema_error_cost (snd (OnCallEnd fl error_code latency r)) =
                (if ema_error_cost r = 0 then 0
                 else if ema_error_cost r < circuit_breaker_min_error_cost_us fl then 0
                 else int64_of_double (fmul (double_of_int (ema_error_cost r)) (smooth r))))
       \<and> ema_latency (snd (OnCallEnd fl error_code latency r)) = ema_latency r
       \<and> (fst (OnCallEnd fl error_code latency r) \<longleftrightarrow>
            (init_completed (snd (OnCallEnd fl error_code latency r)) \<longrightarrow>
             fst (UpdateErrorCost fl latency (ema_latency r) r)))
       \<and> (broken (snd (OnCallEnd fl error_code latency r)) \<longleftrightarrow>
            init_completed (snd (OnCallEnd fl error_code latency r))
            \<and> \<not> fst (UpdateErrorCost fl latency (ema_latency r) r))"
proof -
  let ?cost = "min (wrap_int64 (ema_latency r * circuit_breaker_max_failed_latency_mutliple fl)) latency"
  let ?h = "fst (UpdateErrorCost fl latency (ema_latency r) r)"
  let ?r' = "snd (OnCallEnd fl error_code latency r)"
  have us: "update_stats fl error_code latency r = UpdateErrorCost fl latency (ema_latency r) r"
    by (rule update_stats_failure [OF assms(2)])
  note f = OnCallEnd_fields [OF assms(1), of fl error_code latency, unfolded us]
  have nz: "?cost \<noteq> 0 \<Longrightarrow> ema_error_cost ?r' = wrap_int64 (ema_error_cost r + ?cost)
       \<and> (?h \<longleftrightarrow> wrap_int64 (ema_error_cost r + ?cost) \<le> max_error_cost (ema_latency r) r)"
    using UpdateErrorCost_nonzero_cost [of "ema_latency r" fl latency r] f(2) by simp
  have z: "?cost = 0 \<Longrightarrow> ?h \<and> ema_error_cost ?r' =
                (if ema_error_cost r = 0 then 0
                 else if ema_error_cost r < circuit_breaker_min_error_cost_us fl then 0
                 else int64_of_double (fmul (double_of_int (ema_error_cost r)) (smooth r)))"
    using UpdateErrorCost_zero_cost [of "ema_latency r" fl latency r] f(2) by simp
  have l: "ema_latency ?r' = ema_latency r"
    using f(1) by (simp add: UpdateErrorCost_frame)
  from nz z l f(5,6) show ?thesis by blast
qed

text \<open>
  The failure that trips the scenario, a failure of latency 0 on the same recorder, and the
  failure of latency 1 at the threshold 3134 of window 10 and percent 57: the error cost 3134
  becomes 3135, above the threshold, and the recorder is broken.
\<close>

theorem failure_cost_accounting_witness:
  "ema_error_cost (snd (OnCallEnd default_flags 1 10000
      ((EmaErrorRecorder 10 10)\<lparr>ema_latency := 100, sample_count := 10\<rparr>))) = 200
   \<and> \<not> fst (UpdateErrorCost default_flags 10000 100
             ((EmaErrorRecorder 10 10)\<lparr>ema_latency := 100, sample_count := 10\<rparr>))
   \<and> \<not> fst (OnCallEnd default_flags 1 10000
             ((EmaErrorRecorder 10 10)\<lparr>ema_latency := 100, sample_count := 10\<rparr>))
   \<and> fst (UpdateErrorCost default_flags 0 100
         ((EmaErrorRecorder 10 10)\<lparr>ema_latency := 100, sample_count := 10\<rparr>))
   \<and> ema_error_cost (snd (OnCallEnd default_flags 1 1
        ((EmaErrorRecorder 10 57)\<lparr>ema_latency := 500, ema_error_cost := 3134,
           init_completed := True, sample_count := 11\<rparr>))) = 3135
   \<and> broken (snd (OnCallEnd default_flags 1 1
        ((EmaErrorRecorder 10 57)\<lparr>ema_latency := 500, ema_error_cost := 3134,
           init_completed := True, sample_count := 11\<rparr>)))"
proof -
  let ?r = "(EmaErrorRecorder 10 10)\<lparr>ema_latency := 100, sample_count := 10\<rparr>"
  let ?q = "(EmaErrorRecorder 10 57)\<lparr>ema_latency := 500, ema_error_cost := 3134,
           init_completed := True, sample_count := 11\<rparr>"
  have nb: "\<not> broken ?r" "\<not> broken ?q" by (simp_all add: EmaErrorRecorder_def)
  have e: "(1 :: int) \<noteq> 0" by simp
  have v: "ema_latency ?r = 100" "ema_error_cost ?r = 0"
    "circuit_breaker_max_failed_latency_mutliple default_flags = 2"
    "ema_latency ?q = 500" "ema_error_cost ?q = 3134"
    by (simp_all add: EmaErrorRecorder_def default_flags_def)
  have t: "max_error_cost 100 ?r = 110" "max_error_cost 500 ?q = 3134"
    by (simp_all add: max_error_cost_100_10_10 max_error_cost_500_10_57 EmaErrorRecorder_def)
  have i: "init_completed (snd (OnCallEnd default_flags 1 10000 ?r))"
    by (subst OnCallEnd_fields(4) [OF nb(1)]) (simp add: EmaErrorRecorder_def)
  have j: "init_completed (snd (OnCallEnd default_flags 1 1 ?q))"
    by (subst OnCallEnd_fields(4) [OF nb(2)]) (simp add: EmaErrorRecorder_def)
  from failure_cost_accounting [OF nb(1) e, of default_flags 10000]
       failure_cost_accounting [OF nb(1) e, of default_flags 0]
       failure_cost_accounting [OF nb(2) e, of default_flags 1]
  show ?thesis unfolding v t using i j by (simp add: wrap_int64_def)
qed

section \<open>Successes\<close>

lemma round_double_numeral:
  "numeral n \<le> (9007199254740992 :: int) \<Longrightarrow> round_double (numeral n) = numeral n"
  using round_double_of_int [of "numeral n"] by simp

lemma round_double_neg_numeral:
  "numeral n \<le> (9007199254740992 :: int) \<Longrightarrow> round_double (- numeral n) = - numeral n"
  using round_double_of_int [of "- numeral n"] by simp

lemma round_double_1 [simp]: "round_double 1 = 1"
  using round_double_of_int [of 1] by simp

lemma double_of_int_numeral:
  "numeral n \<le> (9007199254740992 :: int) \<Longrightarrow> double_of_int (numeral n) = numeral n"
  "numeral n \<le> (9007199254740992 :: int) \<Longrightarrow> double_of_int (- numeral n) = - numeral n"
  "double_of_int 0 = 0" "double_of_int 1 = 1"
  by (simp_all add: double_of_int_def round_double_numeral round_double_neg_numeral)

lemma EPSILON_double: "round_double EPSILON = EPSILON"
proof -
  have e: "EPSILON = of_int 3602879701896397 * 2 powr of_int (- 55)"
    by (simp add: EPSILON_value powr_minus_divide)
  have m: "\<bar>3602879701896397 :: int\<bar> \<le> 2 ^ 53" by simp
  show ?thesis
    by (subst (1 2) e) (rule round_double_representable [OF m])
qed

lemma pow_EPSILON_1: "pow_EPSILON 1 = EPSILON"
proof -
  have "fdiv 1 (double_of_int 1) = 1"
    by (simp add: fdiv_def double_of_int_numeral)
  moreover have "0 \<le> EPSILON" by (simp add: EPSILON_value)
  ultimately show ?thesis
    by (simp add: pow_EPSILON_def pow_double_def EPSILON_double)
qed

lemma update_stats_success:
  assumes "0 \<le> wrap_int64 (fst (UpdateLatency l r) * circuit_breaker_max_failed_latency_mutliple fl)"
  shows "fst (update_stats fl 0 l r)"
    and "ema_latency (snd (update_stats fl 0 l r)) = fst (UpdateLatency l r)"
    and "ema_error_cost (snd (update_stats fl 0 l r)) =
           (if ema_error_cost r = 0 then 0
            else if ema_error_cost r < circuit_breaker_min_error_cost_us fl then 0
            else int64_of_double (fmul (double_of_int (ema_error_cost r)) (smooth r)))"
proof -
  have z: "min (wrap_int64 (fst (UpdateLatency l r) * circuit_breaker_max_failed_latency_mutliple fl)) 0 = 0"
    using assms by simp
  note u = UpdateErrorCost_zero_cost [OF z, of "snd (UpdateLatency l r)"]
  show "fst (update_stats fl 0 l r)"
    using u by (simp add: update_stats_0)
  show "ema_latency (snd (update_stats fl 0 l r)) = fst (UpdateLatency l r)"
    by (simp add: update_stats_0 UpdateErrorCost_frame UpdateLatency_frame)
  show "ema_error_cost (snd (update_stats fl 0 l r)) =
           (if ema_error_cost r = 0 then 0
            else if ema_error_cost r < circuit_breaker_min_error_cost_us fl then 0
            else int64_of_double (fmul (double_of_int (ema_error_cost r)) (smooth r)))"
    using u by (simp add: update_stats_0 UpdateLatency_frame)
qed

text \<open>
  Claim C7 as stated fails when the new latency average times the latency multiple leaves
  the range of \<open>int64_t\<close>. A success of latency \<open>2\<^sup>6\<^sup>2\<close> on a new recorder stores that
  latency as the average; twice the average wraps to \<open>- 2\<^sup>6\<^sup>3\<close>, the capped cost is \<open>- 2\<^sup>6\<^sup>3\<close>
  and not \<open>0\<close>, the call takes the branch of an erroneous response and the error cost, \<open>0\<close>
  before the call, is \<open>- 2\<^sup>6\<^sup>3\<close> after it.
\<close>

theorem error_cost_decay_counterexample:
  "\<not> broken (EmaErrorRecorder 1000 3) \<and> ema_error_cost (EmaErrorRecorder 1000 3) = 0
   \<and> ema_error_cost (snd (OnCallEnd default_flags 0 4611686018427387904
                             (EmaErrorRecorder 1000 3))) = - 9223372036854775808"
  by (simp add: OnCallEnd_def UpdateLatency_def UpdateErrorCost_def default_flags_def
        EmaErrorRecorder_def wrap_int64_def Let_def split: prod.splits)

text \<open>
  Claim C7, amended. After a success call \<open>OnCallEnd(0, latency)\<close> on a recorder that is
  not broken, when the new latency average times the latency multiple, taken in \<open>int64_t\<close>,
  is not negative: an error cost of \<open>0\<close> is still \<open>0\<close>; an error cost below
  \<open>circuit_breaker_min_error_cost_us\<close> is exactly \<open>0\<close>; any other error cost is its product
  with the smoothing factor, computed in doubles and converted to \<open>int64_t\<close>.
\<close>

theorem error_cost_decay:
  assumes "\<not> broken r"
    and "0 \<le> wrap_int64 (fst (UpdateLatency latency r)
                            * circuit_breaker_max_failed_latency_mutliple fl)"
  shows "ema_error_cost (snd (OnCallEnd fl 0 latency r)) =
           (if ema_error_cost r = 0 then 0
            else if ema_error_cost r < circuit_breaker_min_error_cost_us fl then 0
            else int64_of_double (fmul (double_of_int (ema_error_cost r)) (smooth r)))"
  using update_stats_success(3) [OF assms(2)] OnCallEnd_fields(2) [OF assms(1), of fl 0 latency]
  by simp

lemma fmul_100_EPSILON: "fmul 100 EPSILON = 10"
  unfolding fmul_def EPSILON_value
  by (subst round_double_eval_up [where k = 49]) (simp_all add: round_half_even_def)

lemma fsub_1_EPSILON: "fsub 1 EPSILON = 8106479329266893 / 9007199254740992"
  unfolding fsub_def EPSILON_value
  by (subst round_double_eval_up [where k = 53]) (simp_all add: round_half_even_def)

lemma fmul_120_09: "fmul 120 (8106479329266893 / 9007199254740992) = 108"
  unfolding fmul_def
  by (subst round_double_eval_up [where k = 46]) (simp_all add: round_half_even_def)

lemma fmul_1000_EPSILON: "fmul 1000 EPSILON = 100"
  using fmul_1000_tenth by (simp add: EPSILON_value)

lemma UpdateLatency_window_1:
  "ema_latency r = 100 \<Longrightarrow> smooth r = EPSILON \<Longrightarrow> fst (UpdateLatency 120 r) = 118"
  by (simp add: UpdateLatency_def Let_def double_of_int_numeral fmul_100_EPSILON fsub_1_EPSILON
        fmul_120_09 fadd_def round_double_numeral int64_of_double_def)

text \<open>
  A window of one has the smoothing factor \<open>EPSILON\<close> itself: the latency average becomes
  118, an error cost of 1000 decays to 100, one of 50 drops to \<open>0\<close>.
\<close>

theorem error_cost_decay_witness:
  "ema_error_cost (snd (OnCallEnd default_flags 0 120
      ((EmaErrorRecorder 1 5)\<lparr>ema_latency := 100, ema_error_cost := 1000\<rparr>))) = 100
   \<and> ema_error_cost (snd (OnCallEnd default_flags 0 120
      ((EmaErrorRecorder 1 5)\<lparr>ema_latency := 100, ema_error_cost := 50\<rparr>))) = 0
   \<and> ema_latency (snd (OnCallEnd default_flags 0 120
      ((EmaErrorRecorder 1 5)\<lparr>ema_latency := 100, ema_error_cost := 1000\<rparr>))) = 118"
proof -
  let ?r = "(EmaErrorRecorder 1 5)\<lparr>ema_latency := 100, ema_error_cost := 1000\<rparr>"
  let ?q = "(EmaErrorRecorder 1 5)\<lparr>ema_latency := 100, ema_error_cost := 50\<rparr>"
  have s: "smooth ?r = EPSILON" "smooth ?q = EPSILON"
    by (simp_all add: EmaErrorRecorder_def pow_EPSILON_1)
  have nb: "\<not> broken ?r" "\<not> broken ?q" by (simp_all add: EmaErrorRecorder_def)
  have u: "fst (UpdateLatency 120 ?r) = 118" "fst (UpdateLatency 120 ?q) = 118"
    by (rule UpdateLatency_window_1; simp add: EmaErrorRecorder_def pow_EPSILON_1)+
  have h: "0 \<le> wrap_int64 (fst (UpdateLatency 120 ?r)
                            * circuit_breaker_max_failed_latency_mutliple default_flags)"
     "0 \<le> wrap_int64 (fst (UpdateLatency 120 ?q)
                            * circuit_breaker_max_failed_latency_mutliple default_flags)"
    by (simp_all add: u default_flags_def wrap_int64_def)
  have v: "ema_error_cost ?r = 1000" "ema_error_cost ?q = 50"
    "circuit_breaker_min_error_cost_us default_flags = 100"
    by (simp_all add: EmaErrorRecorder_def default_flags_def)
  have l: "ema_latency (snd (OnCallEnd default_flags 0 120 ?r)) = 118"
    using update_stats_success(2) [OF h(1)] u(1)
    by (simp add: OnCallEnd_fields(1) [OF nb(1)])
  from error_cost_decay [OF nb(1) h(1)] error_cost_decay [OF nb(2) h(2)] l
  show ?thesis
    unfolding v s by (simp add: double_of_int_numeral fmul_1000_EPSILON int64_of_double_def)
qed

section \<open>Bounds on the averages\<close>

lemma int64_of_double_bounds:
  assumes "0 \<le> x" "x < of_int b + 1" "b < 9223372036854775808"
  shows "0 \<le> int64_of_double x" "int64_of_double x \<le> b"
proof -
  have f: "\<lfloor>x\<rfloor> \<le> b" using assms(2) by (simp add: floor_le_iff)
  have "x < 9223372036854775808"
  proof -
    have "of_int b + 1 \<le> (9223372036854775808 :: real)"
      using assms(3) by linarith
    with assms(2) show ?thesis by linarith
  qed
  then have e: "int64_of_double x = \<lfloor>x\<rfloor>"
    using assms(1) by (intro int64_of_double_floor)
  show "0 \<le> int64_of_double x" using assms(1) by (simp add: e)
  show "int64_of_double x \<le> b" using f by (simp add: e)
qed

lemma average_bounds:
  fixes s :: real
  assumes "0 \<le> a" "a \<le> b" "0 \<le> l" "l \<le> b" "b \<le> 2 ^ 50" "0 \<le> s" "s \<le> 1"
  shows "0 \<le> int64_of_double (fadd (fmul (double_of_int a) s) (fmul (double_of_int l) (fsub 1 s)))"
    and "int64_of_double (fadd (fmul (double_of_int a) s) (fmul (double_of_int l) (fsub 1 s))) \<le> b"
proof -
  define U :: real where "U = 1 + 1 / 2 ^ 53"
  have U1: "1 \<le> U" and U0: "0 \<le> U" by (simp_all add: U_def)
  define B :: real where "B = of_int b"
  have B0: "0 \<le> B" using assms(1,2) by (simp add: B_def)
  have B50: "B \<le> 2 ^ 50" using assms(5) by (simp add: B_def of_int_le_numeral_power_cancel_iff)
  have da: "double_of_int a = of_int a" and dl: "double_of_int l = of_int l"
    using assms(1-5) by (simp_all add: double_of_int_small)
  have ra: "0 \<le> (of_int a :: real)" "of_int a \<le> B" and rl: "0 \<le> (of_int l :: real)" "of_int l \<le> B"
    using assms(1-4) by (simp_all add: B_def)
  define x where "x = fmul (of_int a) s"
  define t where "t = fsub 1 s"
  define y where "y = fmul (of_int l) t"
  have x0: "0 \<le> x" unfolding x_def fmul_def using ra(1) assms(6) by (intro round_double_nonneg) simp
  have "x \<le> of_int a * s * U"
    unfolding x_def fmul_def U_def using ra(1) assms(6) by (intro round_double_ub) simp
  also have "\<dots> \<le> B * s * U"
    using ra(2) assms(6) U0 by (intro mult_right_mono) simp_all
  finally have x1: "x \<le> B * s * U" .
  have t0: "0 \<le> t" unfolding t_def fsub_def using assms(7) by (intro round_double_nonneg) simp
  have t1: "t \<le> (1 - s) * U"
    unfolding t_def fsub_def U_def using assms(7) by (intro round_double_ub) simp
  have y0: "0 \<le> y" unfolding y_def fmul_def using rl(1) t0 by (intro round_double_nonneg) simp
  have "y \<le> of_int l * t * U"
    unfolding y_def fmul_def U_def using rl(1) t0 by (intro round_double_ub) simp
  also have "\<dots> \<le> B * ((1 - s) * U) * U"
    using rl t0 t1 U0 B0 by (intro mult_right_mono mult_mono) simp_all
  finally have y1: "y \<le> B * ((1 - s) * U) * U" .
  have "0 \<le> B * s * U" using B0 assms(6) U0 by simp
  then have "B * s * U * 1 \<le> B * s * U * U"
    using U1 by (intro mult_left_mono)
  then have "B * s * U \<le> B * s * U * U" by simp
  with x1 y1 have "x + y \<le> B * s * U * U + B * ((1 - s) * U) * U" by linarith
  also have "\<dots> = B * (U * U)" by (simp add: algebra_simps)
  finally have xy: "x + y \<le> B * (U * U)" .
  have s0: "0 \<le> fadd x y" unfolding fadd_def using x0 y0 by (intro round_double_nonneg) simp
  have "fadd x y \<le> (x + y) * U"
    unfolding fadd_def U_def using x0 y0 by (intro round_double_ub) simp
  also have "\<dots> \<le> B * (U * U) * U"
    using xy U0 by (intro mult_right_mono)
  also have "\<dots> = B + B * (U * U * U - 1)" by (simp add: algebra_simps)
  also have "B * (U * U * U - 1) \<le> 2 ^ 50 * (U * U * U - 1)"
    using B50 by (intro mult_right_mono) (simp_all add: U_def)
  also have "(2 ^ 50 :: real) * (U * U * U - 1) < 1" by (simp add: U_def)
  finally have s1: "fadd x y < of_int b + 1" by (simp add: B_def)
  have b63: "b < 9223372036854775808" using assms(5) by simp
  show "0 \<le> int64_of_double (fadd (fmul (double_of_int a) s) (fmul (double_of_int l) (fsub 1 s)))"
    using int64_of_double_bounds(1) [OF s0 s1 b63] by (simp add: da dl x_def y_def t_def)
  show "int64_of_double (fadd (fmul (double_of_int a) s) (fmul (double_of_int l) (fsub 1 s))) \<le> b"
    using int64_of_double_bounds(2) [OF s0 s1 b63] by (simp add: da dl x_def y_def t_def)
qed


lemma UpdateLatency_bounds:
  assumes "0 \<le> ema_latency r" "ema_latency r \<le> b" "0 \<le> l" "l \<le> b" "b \<le> 2 ^ 50"
    "0 \<le> smooth r" "smooth r \<le> 1"
  shows "0 \<le> fst (UpdateLatency l r)" and "fst (UpdateLatency l r) \<le> b"
  using average_bounds [OF assms] assms(3,4)
  by (simp_all add: UpdateLatency_def Let_def)

lemma pow_EPSILON_range: "0 \<le> ws \<Longrightarrow> 0 \<le> pow_EPSILON ws \<and> pow_EPSILON ws \<le> 1"
proof (cases "ws = 0")
  case True
  then show ?thesis by (simp add: pow_EPSILON_def)
next
  case False
  assume "0 \<le> ws"
  then have "0 \<le> fdiv 1 (double_of_int ws)"
    unfolding fdiv_def double_of_int_def
    by (intro round_double_nonneg divide_nonneg_nonneg) simp_all
  moreover have "0 \<le> EPSILON" "EPSILON \<le> 1" by (simp_all add: EPSILON_value)
  ultimately have "EPSILON powr fdiv 1 (double_of_int ws) \<le> 1"
    by (intro powr_le1) simp_all
  then have "round_double (EPSILON powr fdiv 1 (double_of_int ws)) \<le> 1"
    by (rule round_double_le_1)
  moreover have "0 \<le> round_double (EPSILON powr fdiv 1 (double_of_int ws))"
    by (intro round_double_nonneg) simp
  ultimately show ?thesis using False by (simp add: pow_EPSILON_def pow_double_def)
qed

section \<open>Streams of successes\<close>

lemma fdiv_99_100: "fdiv 99 100 = 4458563631096791 / 4503599627370496"
  unfolding fdiv_def
  by (subst round_double_eval_up [where k = 53]) (simp_all add: round_half_even_def)

lemma fmul_m4_099: "fmul (- 4) (4458563631096791 / 4503599627370496)
                    = - (4458563631096791 / 1125899906842624)"
  unfolding fmul_def
  by (subst round_double_eval_up [where k = 51]) (simp_all add: round_half_even_def)

lemma fmul_m396_1p1:
  "fmul (- (4458563631096791 / 1125899906842624)) (2476979795053773 / 2251799813685248)
   = - (2452209997103235 / 562949953421312)"
  unfolding fmul_def
  by (subst round_double_eval_up [where k = 50]) (simp_all add: round_half_even_def)

lemma max_error_cost_overflow_4_99:
  "window_size r = 4 \<Longrightarrow> max_error_percent r = 99 \<Longrightarrow>
   max_error_cost 9223372036854775807 r = - 4"
  by (simp add: max_error_cost_def wrap_int64_def double_of_int_numeral fdiv_99_100
        fadd_1_EPSILON fmul_m4_099 fmul_m396_1p1 int64_of_double_def)

lemma fdiv_3_100: "fdiv 3 100 = 1080863910568919 / 36028797018963968"
  unfolding fdiv_def
  by (subst round_double_eval_up [where k = 58]) (simp_all add: round_half_even_def)

lemma fmul_m1000_003: "fmul (- 1000) (1080863910568919 / 36028797018963968) = - 30"
  unfolding fmul_def
  by (subst round_double_eval_up [where k = 48]) (simp_all add: round_half_even_def)

lemma fmul_m30_1p1: "fmul (- 30) (2476979795053773 / 2251799813685248) = - 33"
  unfolding fmul_def
  by (subst round_double_eval_up [where k = 47]) (simp_all add: round_half_even_def)

lemma max_error_cost_overflow_1000_3:
  "window_size r = 1000 \<Longrightarrow> max_error_percent r = 3 \<Longrightarrow>
   max_error_cost 9223372036854775807 r = - 33"
  by (simp add: max_error_cost_def wrap_int64_def double_of_int_numeral fdiv_3_100
        fadd_1_EPSILON fmul_m1000_003 fmul_m30_1p1 int64_of_double_def)

lemma round_double_inverse_EPSILON: "round_double (1 / EPSILON) = 10"
  unfolding EPSILON_value
  by (subst round_double_eval_up [where k = 49]) (simp_all add: round_half_even_def)

lemma pow_EPSILON_minus_1: "pow_EPSILON (- 1) = 10"
proof -
  have "fdiv 1 (double_of_int (- 1)) = - 1"
    using round_double_of_int [of "- 1"] by (simp add: fdiv_def double_of_int_def)
  moreover have "EPSILON powr (- 1) = 1 / EPSILON"
    by (simp add: EPSILON_value powr_minus_divide)
  ultimately show ?thesis
    by (simp add: pow_EPSILON_def pow_double_def round_double_inverse_EPSILON)
qed

lemma fdiv_5_100: "fdiv 5 100 = 3602879701896397 / 72057594037927936"
  unfolding fdiv_def
  by (subst round_double_eval_up [where k = 57]) (simp_all add: round_half_even_def)

lemma fmul_2p32_005:
  "fmul 4294967296 (3602879701896397 / 72057594037927936) = 3602879701896397 / 16777216"
  unfolding fmul_def
  by (subst round_double_eval_up [where k = 25]) (simp_all add: round_half_even_def)

lemma fmul_2p32_005_1p1:
  "fmul (3602879701896397 / 16777216) (2476979795053773 / 2251799813685248)
   = 3963167672086037 / 16777216"
  unfolding fmul_def
  by (subst round_double_eval_up [where k = 25]) (simp_all add: round_half_even_def)

lemma max_error_cost_2p32_1_5:
  "window_size r = 1 \<Longrightarrow> max_error_percent r = 5 \<Longrightarrow> max_error_cost 4294967296 r = 236223201"
  by (simp add: max_error_cost_def wrap_int64_def double_of_int_numeral fdiv_5_100
        fadd_1_EPSILON fmul_2p32_005 fmul_2p32_005_1p1 int64_of_double_def)

lemma fmul_2p32_EPSILON: "fmul 4294967296 EPSILON = 3602879701896397 / 8388608"
  unfolding fmul_def EPSILON_value
  by (subst round_double_eval_up [where k = 24]) (simp_all add: round_half_even_def)

lemma round_double_2p32_tenth:
  "round_double (3602879701896397 / 8388608) = 3602879701896397 / 8388608"
  by (subst round_double_eval_up [where k = 24]) (simp_all add: round_half_even_def)

lemma UpdateLatency_2p32:
  "ema_latency r = 4294967296 \<Longrightarrow> smooth r = EPSILON \<Longrightarrow> fst (UpdateLatency 0 r) = 429496729"
  by (simp add: UpdateLatency_def Let_def double_of_int_numeral fmul_2p32_EPSILON
        fmul_def [of 0] fadd_def round_double_2p32_tenth int64_of_double_def)

lemma fmul_429496729_005:
  "fmul 429496729 (3602879701896397 / 72057594037927936) = 1441151878745293 / 67108864"
  unfolding fmul_def
  by (subst round_double_eval_up [where k = 28]) (simp_all add: round_half_even_def)

lemma fmul_429496729_005_1p1:
  "fmul (1441151878745293 / 67108864) (2476979795053773 / 2251799813685248)
   = 3170534133239645 / 134217728"
  unfolding fmul_def
  by (subst round_double_eval_up [where k = 28]) (simp_all add: round_half_even_def)

lemma max_error_cost_429496729_1_5:
  "window_size r = 1 \<Longrightarrow> max_error_percent r = 5 \<Longrightarrow> max_error_cost 429496729 r = 23622320"
  by (simp add: max_error_cost_def wrap_int64_def double_of_int_numeral fdiv_5_100
        fadd_1_EPSILON fmul_429496729_005 fmul_429496729_005_1p1 int64_of_double_def)

lemma successes_negative_multiple:
  "fst (run_calls (default_flags\<lparr>circuit_breaker_max_failed_latency_mutliple := - 2147483648\<rparr>)
          [(0, 4294967296), (0, 0)] (EmaErrorRecorder 1 5)) = [True, False]"
proof -
  let ?fl = "default_flags\<lparr>circuit_breaker_max_failed_latency_mutliple := - 2147483648\<rparr>"
  let ?r1 = "(EmaErrorRecorder 1 5)\<lparr>ema_latency := 4294967296,
               ema_error_cost := - 9223372036854775808, sample_count := 1\<rparr>"
  have s: "smooth (EmaErrorRecorder 1 5) = EPSILON"
    by (simp add: EmaErrorRecorder_def pow_EPSILON_1)
  have 1: "OnCallEnd ?fl 0 4294967296 (EmaErrorRecorder 1 5) = (True, ?r1)"
    by (simp add: OnCallEnd_def UpdateLatency_def UpdateErrorCost_def default_flags_def
          EmaErrorRecorder_def max_error_cost_2p32_1_5 wrap_int64_def wrap_int32_def Let_def)
  have u: "UpdateLatency 0 ?r1 = (429496729, ?r1\<lparr>ema_latency := 429496729\<rparr>)"
    using UpdateLatency_2p32 [of ?r1] s
    by (simp add: UpdateLatency_def Let_def EmaErrorRecorder_def)
  have 2: "fst (OnCallEnd ?fl 0 0 ?r1) = False"
    unfolding OnCallEnd_def u
    by (simp add: UpdateErrorCost_def default_flags_def
          EmaErrorRecorder_def max_error_cost_429496729_1_5 wrap_int64_def wrap_int32_def Let_def)
  show ?thesis
    using 2 by (auto simp add: run_calls.simps(2) 1 split: prod.splits simp del: run_calls_Cons)
qed

lemma round_double_shifted:
  assumes "\<bar>m\<bar> \<le> 2 ^ 53"
  shows "round_double (of_int (m * 2 ^ j)) = of_int (m * 2 ^ j)"
  using round_double_representable [OF assms, of "int j"]
  by (simp add: powr_realpow)

lemma round_double_large:
  "round_double 9147936743096320 = 9147936743096320"
  "round_double 91479367430963200 = 91479367430963200"
  "round_double 914793674309632000 = 914793674309632000"
  "round_double 9147936743096320000 = 9147936743096320000"
  "round_double (- 9147936743096320000) = - 9147936743096320000"
  using round_double_shifted [of 65 47] round_double_shifted [of 325 48]
    round_double_shifted [of 1625 49] round_double_shifted [of 8125 50]
    round_double_shifted [of "- 8125" 50]
  by simp_all

lemma UpdateLatency_times_10:
  assumes "smooth r = 10"
  shows "ema_latency r = 914793674309632 \<Longrightarrow> fst (UpdateLatency 0 r) = 9147936743096320"
    and "ema_latency r = 9147936743096320 \<Longrightarrow> fst (UpdateLatency 0 r) = 91479367430963200"
    and "ema_latency r = 91479367430963200 \<Longrightarrow> fst (UpdateLatency 0 r) = 914793674309632000"
    and "ema_latency r = 914793674309632000 \<Longrightarrow> fst (UpdateLatency 0 r) = 9147936743096320000"
  using assms
  by (simp_all add: UpdateLatency_def Let_def double_of_int_def fmul_def fadd_def fsub_def
        round_double_numeral round_double_neg_numeral round_double_large int64_of_double_def)

lemma fmul_large_003:
  "fmul (- 9147936743096320000) (1080863910568919 / 36028797018963968) = - 274438102292889600"
  unfolding fmul_def
  by (subst round_double_eval_down [where k = 5]) (simp_all add: round_half_even_def)

lemma fmul_large_003_1p1:
  "fmul (- 274438102292889600) (2476979795053773 / 2251799813685248) = - 301881912522178560"
  unfolding fmul_def
  by (subst round_double_eval_down [where k = 6]) (simp_all add: round_half_even_def)

lemma max_error_cost_large:
  "window_size r = - 1 \<Longrightarrow> max_error_percent r = 3 \<Longrightarrow>
   max_error_cost 9147936743096320000 r = - 301881912522178560"
  by (simp add: max_error_cost_def wrap_int64_def double_of_int_def round_double_large
        round_double_numeral fdiv_3_100 fadd_1_EPSILON fmul_large_003 fmul_large_003_1p1
        int64_of_double_def)

lemma OnCallEnd_success_step:
  assumes "\<not> broken r" and "ema_error_cost r = 0" and "fst (UpdateLatency l r) = y"
    and "0 \<le> y" and "y < 4611686018427387904"
  shows "fst (OnCallEnd default_flags 0 l r)"
    and "\<not> broken (snd (OnCallEnd default_flags 0 l r))"
    and "ema_error_cost (snd (OnCallEnd default_flags 0 l r)) = 0"
    and "ema_latency (snd (OnCallEnd default_flags 0 l r)) = y"
proof -
  have w: "0 \<le> wrap_int64 (fst (UpdateLatency l r)
                  * circuit_breaker_max_failed_latency_mutliple default_flags)"
    using assms(3-5) by (simp add: default_flags_def wrap_int64_id)
  note u = update_stats_success [OF w]
  show "fst (OnCallEnd default_flags 0 l r)" "\<not> broken (snd (OnCallEnd default_flags 0 l r))"
    "ema_error_cost (snd (OnCallEnd default_flags 0 l r)) = 0"
    "ema_latency (snd (OnCallEnd default_flags 0 l r)) = y"
    using u assms(2,3) by (simp_all add: OnCallEnd_fields [OF assms(1)])
qed

lemma successes_negative_window:
  "fst (run_calls default_flags [(0, 914793674309632), (0, 0), (0, 0), (0, 0), (0, 0)]
          (EmaErrorRecorder (- 1) 3)) = [True, True, True, True, False]"
proof -
  let ?r0 = "EmaErrorRecorder (- 1) 3"
  let ?r1 = "snd (OnCallEnd default_flags 0 914793674309632 ?r0)"
  let ?r2 = "snd (OnCallEnd default_flags 0 0 ?r1)"
  let ?r3 = "snd (OnCallEnd default_flags 0 0 ?r2)"
  let ?r4 = "snd (OnCallEnd default_flags 0 0 ?r3)"
  have f0: "smooth ?r0 = 10" "window_size ?r0 = - 1" "max_error_percent ?r0 = 3"
    by (simp_all add: EmaErrorRecorder_def pow_EPSILON_minus_1)
  have f1: "smooth ?r1 = 10" "window_size ?r1 = - 1" "max_error_percent ?r1 = 3"
    using OnCallEnd_frame [of default_flags 0 914793674309632 ?r0] f0 by simp_all
  have f2: "smooth ?r2 = 10" "window_size ?r2 = - 1" "max_error_percent ?r2 = 3"
    using OnCallEnd_frame [of default_flags 0 0 ?r1] f1 by simp_all
  have f3: "smooth ?r3 = 10" "window_size ?r3 = - 1" "max_error_percent ?r3 = 3"
    using OnCallEnd_frame [of default_flags 0 0 ?r2] f2 by simp_all
  have f4: "smooth ?r4 = 10" "window_size ?r4 = - 1" "max_error_percent ?r4 = 3"
    using OnCallEnd_frame [of default_flags 0 0 ?r3] f3 by simp_all
  have u0: "fst (UpdateLatency 914793674309632 ?r0) = 914793674309632"
    by (simp add: UpdateLatency_def EmaErrorRecorder_def)
  have b0: "\<not> broken ?r0" and e0: "ema_error_cost ?r0 = 0"
    by (simp_all add: EmaErrorRecorder_def)
  have s1: "fst (OnCallEnd default_flags 0 914793674309632 ?r0)" "\<not> broken ?r1"
    "ema_error_cost ?r1 = 0" "ema_latency ?r1 = 914793674309632"
    using OnCallEnd_success_step [OF b0 e0 u0] by simp_all
  have s2: "fst (OnCallEnd default_flags 0 0 ?r1)" "\<not> broken ?r2"
    "ema_error_cost ?r2 = 0" "ema_latency ?r2 = 9147936743096320"
    using OnCallEnd_success_step [OF s1(2,3) UpdateLatency_times_10(1) [OF f1(1) s1(4)]]
    by simp_all
  have s3: "fst (OnCallEnd default_flags 0 0 ?r2)" "\<not> broken ?r3"
    "ema_error_cost ?r3 = 0" "ema_latency ?r3 = 91479367430963200"
    using OnCallEnd_success_step [OF s2(2,3) UpdateLatency_times_10(2) [OF f2(1) s2(4)]]
    by simp_all
  have s4: "fst (OnCallEnd default_flags 0 0 ?r3)" "\<not> broken ?r4"
    "ema_error_cost ?r4 = 0" "ema_latency ?r4 = 914793674309632000"
    using OnCallEnd_success_step [OF s3(2,3) UpdateLatency_times_10(3) [OF f3(1) s3(4)]]
    by simp_all
  have u4: "fst (UpdateLatency 0 ?r4) = 9147936743096320000"
    by (rule UpdateLatency_times_10(4) [OF f4(1) s4(4)])
  have c: "min (wrap_int64 (fst (UpdateLatency 0 ?r4)
                  * circuit_breaker_max_failed_latency_mutliple default_flags)) 0
           = - 150870587516911616"
    unfolding u4 by (simp add: default_flags_def wrap_int64_def)
  have m: "max_error_cost 9147936743096320000 (snd (UpdateLatency 0 ?r4))
           = - 301881912522178560"
    using f4 by (intro max_error_cost_large) (simp_all add: UpdateLatency_frame)
  have "\<not> fst (update_stats default_flags 0 0 ?r4)"
    unfolding update_stats_0
    using UpdateErrorCost_nonzero_cost [of "fst (UpdateLatency 0 ?r4)" default_flags 0
        "snd (UpdateLatency 0 ?r4)"] c s4(3) m
    by (simp add: u4 UpdateLatency_frame wrap_int64_def)
  moreover have "init_completed ?r1"
    unfolding OnCallEnd_fields(4) [OF b0] by (simp add: EmaErrorRecorder_def)
  then have "init_completed ?r2"
    unfolding OnCallEnd_fields(4) [OF s1(2)] by (rule disjI1)
  then have "init_completed ?r3"
    unfolding OnCallEnd_fields(4) [OF s2(2)] by (rule disjI1)
  then have "init_completed ?r4"
    unfolding OnCallEnd_fields(4) [OF s3(2)] by (rule disjI1)
  then have "init_completed (snd (OnCallEnd default_flags 0 0 ?r4))"
    unfolding OnCallEnd_fields(4) [OF s4(2)] by (rule disjI1)
  ultimately have s5: "\<not> fst (OnCallEnd default_flags 0 0 ?r4)"
    by (simp add: OnCallEnd_fields(5) [OF s4(2)])
  show ?thesis
    using s1(1) s2(1) s3(1) s4(1) s5 by simp
qed

text \<open>
  Claim C8 as stated fails for latencies that the arithmetic on \<open>int64_t\<close> cannot hold. In
  a window of four with 99 percent, four successes of latency \<open>0\<close> complete the warm-up; a
  success of latency \<open>2\<^sup>6\<^sup>3 - 1\<close> then stores that latency as the average, twice the average
  wraps to \<open>- 2\<close>, the cost \<open>- 2\<close> is not \<open>0\<close>, the threshold computed from the wrapped product
  with the window size is \<open>- 4\<close>, and the call returns false. The same call on the default
  long window after its warm-up finds the threshold \<open>- 33\<close>, returns false and leaves the
  recorder broken.

  It also fails, for small latencies, in two configurations that the constructor and the
  flags accept. With the latency multiple \<open>- 2\<^sup>3\<^sup>1\<close> and a window of one, a success of latency
  \<open>2\<^sup>3\<^sup>2\<close> has the cost \<open>- 2\<^sup>6\<^sup>3\<close>; the next success, of latency \<open>0\<close>, lowers the average to
  429496729, its cost wraps the error cost to 8301034834457788416, above the threshold
  23622320, and the call returns false. With the window size \<open>- 1\<close> the smoothing factor is
  10 and the warm-up is complete at the first call: after a success of latency \<open>13 * 2\<^sup>4\<^sup>6\<close>
  each success of latency \<open>0\<close> multiplies the average by 10; the fourth one brings it to
  9147936743096320000; twice that wraps to \<open>- 150870587516911616\<close>, above the threshold
  \<open>- 301881912522178560\<close>, and the call returns false.
\<close>

theorem all_success_counterexample:
  "fst (run_calls default_flags
          [(0, 0), (0, 0), (0, 0), (0, 0), (0, 9223372036854775807)] (EmaErrorRecorder 4 99))
     = [True, True, True, True, False]
   \<and> OnCallEnd default_flags 0 9223372036854775807
        ((EmaErrorRecorder 1000 3)\<lparr>init_completed := True, sample_count := 1001\<rparr>)
      = (False, (EmaErrorRecorder 1000 3)\<lparr>init_completed := True, sample_count := 1002,
                   ema_latency := 9223372036854775807, ema_error_cost := - 2,
                   broken := True\<rparr>)
   \<and> fst (run_calls
            (default_flags\<lparr>circuit_breaker_max_failed_latency_mutliple := - 2147483648\<rparr>)
            [(0, 4294967296), (0, 0)] (EmaErrorRecorder 1 5)) = [True, False]
   \<and> fst (run_calls default_flags [(0, 914793674309632), (0, 0), (0, 0), (0, 0), (0, 0)]
            (EmaErrorRecorder (- 1) 3)) = [True, True, True, True, False]"
proof -
  have a: "fst (run_calls default_flags
          [(0, 0), (0, 0), (0, 0), (0, 0), (0, 9223372036854775807)] (EmaErrorRecorder 4 99))
     = [True, True, True, True, False]"
    by (simp add: run_calls.simps(2) OnCallEnd_def UpdateLatency_def UpdateErrorCost_def
          default_flags_def EmaErrorRecorder_def max_error_cost_overflow_4_99 wrap_int64_def
          wrap_int32_def Let_def del: run_calls_Cons)
  have b: "OnCallEnd default_flags 0 9223372036854775807
        ((EmaErrorRecorder 1000 3)\<lparr>init_completed := True, sample_count := 1001\<rparr>)
      = (False, (EmaErrorRecorder 1000 3)\<lparr>init_completed := True, sample_count := 1002,
                   ema_latency := 9223372036854775807, ema_error_cost := - 2,
                   broken := True\<rparr>)"
    by (simp add: OnCallEnd_def UpdateLatency_def UpdateErrorCost_def
          default_flags_def EmaErrorRecorder_def max_error_cost_overflow_1000_3 wrap_int64_def
          wrap_int32_def Let_def)
  from a b successes_negative_multiple successes_negative_window
  show ?thesis by (simp only: simp_thms)
qed

lemma OnCallEnd_success:
  assumes "\<not> broken r" and "0 \<le> l" "l \<le> b" and "0 \<le> ema_latency r" "ema_latency r \<le> b"
    and "b \<le> 2 ^ 50" and "0 \<le> smooth r" "smooth r \<le> 1"
    and "0 \<le> circuit_breaker_max_failed_latency_mutliple fl"
    and "circuit_breaker_max_failed_latency_mutliple fl * b < 9223372036854775808"
  shows "fst (OnCallEnd fl 0 l r) \<and> \<not> broken (snd (OnCallEnd fl 0 l r))
       \<and> 0 \<le> ema_latency (snd (OnCallEnd fl 0 l r))
       \<and> ema_latency (snd (OnCallEnd fl 0 l r)) \<le> b"
proof -
  let ?m = "circuit_breaker_max_failed_latency_mutliple fl"
  note n = UpdateLatency_bounds [OF assms(4,5,2,3,6,7,8)]
  have "fst (UpdateLatency l r) * ?m \<le> b * ?m"
    using n(2) assms(9) by (rule mult_right_mono)
  then have lt: "fst (UpdateLatency l r) * ?m < 9223372036854775808"
    using assms(10) by (simp add: mult.commute)
  have ge: "0 \<le> fst (UpdateLatency l r) * ?m"
    using n(1) assms(9) by simp
  have w: "0 \<le> wrap_int64 (fst (UpdateLatency l r) * ?m)"
    using ge lt by (simp add: wrap_int64_id)
  have h: "fst (update_stats fl 0 l r)" by (rule update_stats_success(1) [OF w])
  have "ema_latency (snd (update_stats fl 0 l r)) = fst (UpdateLatency l r)"
    by (rule update_stats_success(2) [OF w])
  with h n show ?thesis
    by (simp add: OnCallEnd_fields [OF assms(1)])
qed

lemma run_calls_successes:
  "\<forall>c \<in> set cs. fst c = 0 \<and> 0 \<le> snd c \<and> snd c \<le> b \<Longrightarrow> \<not> broken r \<Longrightarrow>
   0 \<le> ema_latency r \<Longrightarrow> ema_latency r \<le> b \<Longrightarrow> b \<le> 2 ^ 50 \<Longrightarrow>
   0 \<le> smooth r \<Longrightarrow> smooth r \<le> 1 \<Longrightarrow>
   0 \<le> circuit_breaker_max_failed_latency_mutliple fl \<Longrightarrow>
   circuit_breaker_max_failed_latency_mutliple fl * b < 9223372036854775808 \<Longrightarrow>
   fst (run_calls fl cs r) = replicate (length cs) True \<and> \<not> broken (snd (run_calls fl cs r))"
proof (induction cs arbitrary: r)
  case Nil
  then show ?case by simp
next
  case (Cons c cs)
  obtain e l where c: "c = (e, l)" by (cases c)
  from Cons.prems(1) c have e: "e = 0" and l: "0 \<le> l" "l \<le> b" by simp_all
  let ?r1 = "snd (OnCallEnd fl 0 l r)"
  note step = OnCallEnd_success [OF Cons.prems(2) l Cons.prems(3-9)]
  have "fst (run_calls fl cs ?r1) = replicate (length cs) True
        \<and> \<not> broken (snd (run_calls fl cs ?r1))"
  proof (rule Cons.IH)
    show "\<forall>c \<in> set cs. fst c = 0 \<and> 0 \<le> snd c \<and> snd c \<le> b" using Cons.prems(1) by simp
    show "\<not> broken ?r1" "0 \<le> ema_latency ?r1" "ema_latency ?r1 \<le> b" using step by simp_all
    show "0 \<le> smooth ?r1" "smooth ?r1 \<le> 1" using Cons.prems(6,7) by (simp_all add: OnCallEnd_frame)
    show "b \<le> 2 ^ 50" by (rule Cons.prems(5))
    show "0 \<le> circuit_breaker_max_failed_latency_mutliple fl" by (rule Cons.prems(8))
    show "circuit_breaker_max_failed_latency_mutliple fl * b < 9223372036854775808"
      by (rule Cons.prems(9))
  qed
  with step show ?case by (simp add: c e)
qed

text \<open>
  Claim C8, amended. On a recorder in the state that the constructor and \<open>Reset\<close> leave, every
  call of a sequence of successes with latencies between \<open>0\<close> and a bound \<open>b\<close> returns true,
  before and after the warm-up, and the recorder is not broken at the end, for every length
  of the sequence, when \<open>b\<close> is at most \<open>2\<^sup>5\<^sup>0\<close> and the product of \<open>b\<close> and the latency
  multiple stays in the range of \<open>int64_t\<close>. The smoothing factor lies between \<open>0\<close> and \<open>1\<close>,
  as it does for every window size that is not negative (\<open>pow_EPSILON_range\<close>), and the flag
  \<open>circuit_breaker_max_failed_latency_mutliple\<close> is not negative.
\<close>

theorem all_success_never_trips:
  assumes "fresh r" and "0 \<le> smooth r" and "smooth r \<le> 1"
    and "0 \<le> circuit_breaker_max_failed_latency_mutliple fl"
    and "0 \<le> b" and "b \<le> 2 ^ 50"
    and "circuit_breaker_max_failed_latency_mutliple fl * b < 9223372036854775808"
    and "\<forall>c \<in> set cs. fst c = 0 \<and> 0 \<le> snd c \<and> snd c \<le> b"
  shows "fst (run_calls fl cs r) = replicate (length cs) True
       \<and> \<not> broken (snd (run_calls fl cs r))"
  using assms(1,5)
  by (intro run_calls_successes [where b = b] assms(2-4,6-8)) (simp_all add: fresh_def)

theorem all_success_never_trips_witness:
  "fst (run_calls default_flags [(0, 100), (0, 200), (0, 50), (0, 0)] (EmaErrorRecorder 1 5))
     = [True, True, True, True]
   \<and> \<not> broken (snd (run_calls default_flags [(0, 100), (0, 200), (0, 50), (0, 0)]
                      (EmaErrorRecorder 1 5)))"
proof -
  have s: "0 \<le> smooth (EmaErrorRecorder 1 5)" "smooth (EmaErrorRecorder 1 5) \<le> 1"
    using pow_EPSILON_range [of 1] by (simp_all add: EmaErrorRecorder_def)
  have m: "0 \<le> circuit_breaker_max_failed_latency_mutliple default_flags"
    "circuit_breaker_max_failed_latency_mutliple default_flags * 1000 < 9223372036854775808"
    by (simp_all add: default_flags_def)
  have b: "(0 :: int) \<le> 1000" "(1000 :: int) \<le> 2 ^ 50" by simp_all
  have c: "\<forall>c \<in> set [(0, 100), (0, 200), (0, 50), (0, 0 :: int)].
             fst c = (0 :: int) \<and> 0 \<le> snd c \<and> snd c \<le> 1000"
    by simp
  from all_success_never_trips [OF fresh_EmaErrorRecorder s m(1) b m(2) c]
  show ?thesis by (simp add: eval_nat_numeral)
qed

section \<open>Signs of the fields\<close>












end
